theory Spec2Isabelle
  imports Main "HOL-Library.Finite_Map" "HOL-Library.Multiset"
begin

section \<open>Canonical schema model\<close>

text \<open>
  Modelled from the spec: the message types generated from \<^verbatim>\<open>proto/types.proto\<close>
  (\<^verbatim>\<open>ObjectName\<close>, \<^verbatim>\<open>DataType\<close>, \<^verbatim>\<open>ColumnDef\<close>, \<^verbatim>\<open>TableConstraint\<close>,
  \<^verbatim>\<open>TableElement\<close>, \<^verbatim>\<open>MetaTable\<close>, \<^verbatim>\<open>MetaDatabase\<close>) are not among the
  sources. They are declared here from the data model of the specification and from the
  fields the Go code reads and writes.

  A Go pointer that the code tests against \<^verbatim>\<open>nil\<close>, or that it dereferences, is an
  \<open>option\<close> (\<open>None\<close> is \<^verbatim>\<open>nil\<close>). A \<^verbatim>\<open>map[string]T\<close> is a finite map
  \<open>(string, T) fmap\<close>; a \<^verbatim>\<open>nil\<close> map and an empty map are both \<open>fmempty\<close>, which
  no operation of the code tells apart. A \<^verbatim>\<open>oneof\<close> is a datatype with one constructor
  per wrapper; an unset \<^verbatim>\<open>oneof\<close> (and a \<^verbatim>\<open>nil\<close> message holding it) is \<open>None\<close>.
\<close>

record ObjectName =
  Idents :: "string list"

datatype DataType =
    IntData
  | BigIntData
  | SmallIntData
  | DecimalData nat nat
  | BooleanData
  | TextData
  | FloatData
  | ByteaData
  | TimestampData bool
  | ArrayData DataType
  | StructData "(string \<times> DataType) list"
  | CustomData "string list"

text \<open>
  \<^verbatim>\<open>google.protobuf.Any\<close>, the opaque envelope of a default value or a check
  expression: a type tag and the payload.
\<close>

record Any =
  TypeUrl :: string
  Payload :: string

datatype ColumnConstraintSpec =
    ColumnUniqueItem bool
  | NotNullItem

record ColumnConstraint =
  ColumnConstraint_Name :: string
  ColumnConstraint_Spec :: "ColumnConstraintSpec option"

datatype AutoIncrement = AutoIncrementConfirm

record ColumnDef =
  ColumnDef_Name :: string
  ColumnDef_DataType :: "DataType option"
  ColumnDef_Default :: "Any option"
  ColumnDef_Constraints :: "ColumnConstraint list"
  ColumnDef_Comment :: string
  ColumnDef_Options :: "(string, string) fmap"
  ColumnDef_MyDecos :: "AutoIncrement list"

datatype ReferentialAction =
    ReferentialAction_Unknown
  | ReferentialAction_Cascade
  | ReferentialAction_SetNull
  | ReferentialAction_SetDefault
  | ReferentialAction_Restrict
  | ReferentialAction_NoAction

datatype MatchOption =
    MatchOption_Unknown
  | MatchOption_Full
  | MatchOption_Partial
  | MatchOption_Simple

record UniqueTableConstraint =
  IsPrimary :: bool
  UniqueTableConstraint_Columns :: "string list"
  IndexName :: string

record ReferenceKeyExpr =
  ReferenceKeyExpr_TableName :: string
  ReferenceKeyExpr_Columns :: "string list"

record ReferentialTableConstraint =
  ReferentialTableConstraint_Columns :: "string list"
  KeyExpr :: "ReferenceKeyExpr option"
  OnUpdate :: ReferentialAction
  OnDelete :: ReferentialAction
  Match :: MatchOption

text \<open>
  The \<^verbatim>\<open>oneof\<close> of a \<^verbatim>\<open>TableConstraintSpec\<close>. Each wrapper holds a pointer,
  which the conversion layer can leave \<^verbatim>\<open>nil\<close> (a check constraint with an empty
  definition is \<open>CheckItem None\<close>).
\<close>

datatype TableConstraintSpec =
    UniqueItem "UniqueTableConstraint option"
  | CheckItem "Any option"
  | ReferenceItem "ReferentialTableConstraint option"

record TableConstraint =
  TableConstraint_Name :: string
  TableConstraint_Spec :: "TableConstraintSpec option"

text \<open>
  A \<^verbatim>\<open>*TableElement\<close>. \<open>NoElement\<close> stands for a \<^verbatim>\<open>nil\<close> element and for
  an element whose \<^verbatim>\<open>oneof\<close> is unset: the code reads elements only through the
  generated getters, which answer \<^verbatim>\<open>nil\<close> for both.
\<close>

datatype TableElement =
    ColumnDefElement "ColumnDef option"
  | TableConstraintElement "TableConstraint option"
  | NoElement

record MetaTable =
  MetaTable_Name :: "ObjectName option"
  MetaTable_Type :: string
  MetaTable_Elements :: "TableElement list"
  MetaTable_Comment :: string
  MetaTable_Options :: "(string, string) fmap"

record MetaDatabase =
  MetaDatabase_Name :: string
  Tables :: "MetaTable option list"

text \<open>The generated getters: each answers \<^verbatim>\<open>nil\<close> on a \<^verbatim>\<open>nil\<close> receiver.\<close>

definition GetTables :: "MetaDatabase option \<Rightarrow> MetaTable option list" where
  "GetTables db = (case db of None \<Rightarrow> [] | Some d \<Rightarrow> Tables d)"

fun GetColumnDefElement :: "TableElement \<Rightarrow> ColumnDef option" where
  "GetColumnDefElement (ColumnDefElement c) = c"
| "GetColumnDefElement (TableConstraintElement tc) = None"
| "GetColumnDefElement NoElement = None"

fun GetTableConstraintElement :: "TableElement \<Rightarrow> TableConstraint option" where
  "GetTableConstraintElement (TableConstraintElement tc) = tc"
| "GetTableConstraintElement (ColumnDefElement c) = None"
| "GetTableConstraintElement NoElement = None"

fun GetReferenceItem :: "TableConstraintSpec option \<Rightarrow> ReferentialTableConstraint option" where
  "GetReferenceItem (Some (ReferenceItem r)) = r"
| "GetReferenceItem (Some (UniqueItem u)) = None"
| "GetReferenceItem (Some (CheckItem c)) = None"
| "GetReferenceItem None = None"

section \<open>Schema changes (diff\_types.go)\<close>

text \<open>
  The closed set of implementations of the interface \<^verbatim>\<open>SchemaChange\<close>; the fields of
  each struct in the order of their declaration. \<^verbatim>\<open>AddTable.Table\<close>,
  \<^verbatim>\<open>AddColumn.Column\<close>, \<^verbatim>\<open>AlterColumn.OldColumn\<close>, \<^verbatim>\<open>AlterColumn.NewColumn\<close>
  and \<^verbatim>\<open>AddConstraint.Constraint\<close> are pointers that the diff engine only ever fills
  with values it has read through a pointer, so they are held by value.
\<close>

datatype SchemaChange =
    AddTable MetaTable
  | DropTable "ObjectName option"
  | AlterTableOptions "ObjectName option" "(string, string) fmap" "(string, string) fmap" string string
  | AddColumn "ObjectName option" ColumnDef
  | DropColumn "ObjectName option" string
  | AlterColumn "ObjectName option" ColumnDef ColumnDef
  | AddConstraint "ObjectName option" TableConstraint
  | DropConstraint "ObjectName option" string bool

fun IsDestructive :: "SchemaChange \<Rightarrow> bool" where
  "IsDestructive (AddTable t) = False"
| "IsDestructive (DropTable n) = True"
| "IsDestructive (AlterTableOptions n oo no oc nc) = False"
| "IsDestructive (AddColumn n c) = False"
| "IsDestructive (DropColumn n c) = True"
| "IsDestructive (AlterColumn n oc nc) = True"
| "IsDestructive (AddConstraint n c) = False"
| "IsDestructive (DropConstraint n c fk) = False"

fun Priority :: "SchemaChange \<Rightarrow> int" where
  "Priority (AddTable t) = 40"
| "Priority (DropTable n) = 30"
| "Priority (AlterTableOptions n oo no oc nc) = 70"
| "Priority (AddColumn n c) = 50"
| "Priority (DropColumn n c) = 20"
| "Priority (AlterColumn n oc nc) = 70"
| "Priority (AddConstraint n c) = 60"
| "Priority (DropConstraint n c fk) = (if fk then 5 else 10)"

text \<open>
  \<^verbatim>\<open>SortChanges\<close> sorts the slice in place with two nested index loops: for every
  \<open>i\<close>, every later position \<open>j\<close> whose change has a smaller priority than the one
  now at \<open>i\<close> is exchanged with it. The slice is passed and returned.
\<close>

definition swap :: "nat \<Rightarrow> nat \<Rightarrow> 'a list \<Rightarrow> 'a list" where
  "swap i j xs = (xs[i := xs ! j])[j := xs ! i]"

definition SortChanges_step :: "nat \<Rightarrow> nat \<Rightarrow> SchemaChange list \<Rightarrow> SchemaChange list" where
  "SortChanges_step i j changes =
     (if Priority (changes ! i) > Priority (changes ! j) then swap i j changes else changes)"

definition SortChanges_inner :: "nat \<Rightarrow> SchemaChange list \<Rightarrow> SchemaChange list" where
  "SortChanges_inner i changes = fold (SortChanges_step i) [i + 1 ..< length changes] changes"

definition SortChanges :: "SchemaChange list \<Rightarrow> SchemaChange list" where
  "SortChanges changes = fold SortChanges_inner [0 ..< length changes] changes"

section \<open>The diff engine (diff.go)\<close>

datatype error = NilPointerDereference

text \<open>\<^verbatim>\<open>tableName\<close>: the last identifier, the empty string when there is none.\<close>

definition tableName :: "ObjectName option \<Rightarrow> string" where
  "tableName on =
     (case on of
        None \<Rightarrow> ''''
      | Some n \<Rightarrow> if length (Idents n) = 0 then '''' else Idents n ! (length (Idents n) - 1))"

text \<open>
  \<^verbatim>\<open>tablesByName\<close> reads \<^verbatim>\<open>t.Name\<close> of every entry of the slice: a \<^verbatim>\<open>nil\<close>
  entry is a nil pointer dereference, which panics. A later table replaces an earlier
  one of the same simple name.
\<close>

fun tablesByName_loop ::
  "(string, MetaTable) fmap \<Rightarrow> MetaTable option list \<Rightarrow> error + (string, MetaTable) fmap" where
  "tablesByName_loop m [] = Inr m"
| "tablesByName_loop m (None # tables) = Inl NilPointerDereference"
| "tablesByName_loop m (Some t # tables) =
     tablesByName_loop (fmupd (tableName (MetaTable_Name t)) t m) tables"

definition tablesByName :: "MetaTable option list \<Rightarrow> error + (string, MetaTable) fmap" where
  "tablesByName tables = tablesByName_loop fmempty tables"

definition columnsFromElements :: "TableElement list \<Rightarrow> (string, ColumnDef) fmap" where
  "columnsFromElements elems =
     fold (\<lambda>elem m. case GetColumnDefElement elem of
                       None \<Rightarrow> m
                     | Some col \<Rightarrow> fmupd (ColumnDef_Name col) col m) elems fmempty"

definition constraintsFromElements :: "TableElement list \<Rightarrow> (string, TableConstraint) fmap" where
  "constraintsFromElements elems =
     fold (\<lambda>elem m. case GetTableConstraintElement elem of
                       None \<Rightarrow> m
                     | Some tc \<Rightarrow> if TableConstraint_Name tc \<noteq> ''''
                                 then fmupd (TableConstraint_Name tc) tc m else m) elems fmempty"

text \<open>
  \<^verbatim>\<open>proto.Equal\<close> on two message pointers of one type: two \<^verbatim>\<open>nil\<close> pointers are
  equal, a \<^verbatim>\<open>nil\<close> pointer and a message are not, and two messages are compared field
  by field. On the values of this model that is equality.
\<close>

definition proto_Equal :: "'a option \<Rightarrow> 'a option \<Rightarrow> bool" where
  "proto_Equal x y = (x = y)"

definition columnsEqual :: "ColumnDef \<Rightarrow> ColumnDef \<Rightarrow> bool" where
  "columnsEqual a b =
     (if ColumnDef_Name a \<noteq> ColumnDef_Name b then False
      else if ColumnDef_Comment a \<noteq> ColumnDef_Comment b then False
      else if \<not> proto_Equal (ColumnDef_DataType a) (ColumnDef_DataType b) then False
      else if \<not> proto_Equal (ColumnDef_Default a) (ColumnDef_Default b) then False
      else True)"

text \<open>
  \<^verbatim>\<open>mapsEqual\<close> returns false from inside its loop at the first key of \<open>a\<close> that \<open>b\<close>
  lacks or maps to another value: whatever the order of the keys, it returns true exactly
  when no key of \<open>a\<close> does so.
\<close>

definition mapsEqual :: "(string, string) fmap \<Rightarrow> (string, string) fmap \<Rightarrow> bool" where
  "mapsEqual a b =
     (if fcard (fmdom a) \<noteq> fcard (fmdom b) then False
      else fmpred (\<lambda>k v. fmlookup b k = Some v) a)"

text \<open>
  Go leaves the order in which \<^verbatim>\<open>range\<close> visits the keys of a map unspecified, and
  the runtime varies it from one loop to the next. A \<^verbatim>\<open>range\<close> loop over a map is
  therefore modelled with the order of its keys as an argument: \<open>range_map m ks emit
  changes\<close> visits the keys \<open>ks\<close> in turn and appends what the body emits for each key
  and its value (a key that the map does not hold is passed over). \<open>range_order m ks\<close>
  says that \<open>ks\<close> is an order in which Go can visit the map \<open>m\<close>: every key once.
\<close>

definition range_map ::
  "('k, 'v) fmap \<Rightarrow> 'k list \<Rightarrow> ('k \<Rightarrow> 'v \<Rightarrow> 'c list) \<Rightarrow> 'c list \<Rightarrow> 'c list" where
  "range_map m ks emit changes =
     fold (\<lambda>k changes. case fmlookup m k of
                          None \<Rightarrow> changes
                        | Some v \<Rightarrow> changes @ emit k v) ks changes"

definition range_order :: "('k, 'v) fmap \<Rightarrow> 'k list \<Rightarrow> bool" where
  "range_order m ks = (distinct ks \<and> set ks = fmdom' m)"

text \<open>The key orders of the five map loops of \<^verbatim>\<open>diffColumns\<close> and \<^verbatim>\<open>diffConstraints\<close>.\<close>

record TableOrder =
  dropColumnOrder :: "string list"
  addColumnOrder :: "string list"
  alterColumnOrder :: "string list"
  dropConstraintOrder :: "string list"
  addConstraintOrder :: "string list"

text \<open>
  The key orders of one run of \<^verbatim>\<open>DiffDatabase\<close>: of its three loops over the tables,
  and of the loops of \<^verbatim>\<open>diffTable\<close> for each simple table name.
\<close>

record MapOrder =
  dropTableOrder :: "string list"
  addTableOrder :: "string list"
  diffTableOrder :: "string list"
  tableOrder :: "string \<Rightarrow> TableOrder"

definition diffColumns ::
  "TableOrder \<Rightarrow> ObjectName option \<Rightarrow> (string, ColumnDef) fmap \<Rightarrow> (string, ColumnDef) fmap
     \<Rightarrow> SchemaChange list" where
  "diffColumns ord tblName current desired =
     (let changes = [];
          changes = range_map current (dropColumnOrder ord)
            (\<lambda>name currCol.
               if fmlookup desired name = None then [DropColumn tblName name] else [])
            changes;
          changes = range_map desired (addColumnOrder ord)
            (\<lambda>name desCol.
               if fmlookup current name = None then [AddColumn tblName desCol] else [])
            changes;
          changes = range_map desired (alterColumnOrder ord)
            (\<lambda>name desCol.
               case fmlookup current name of
                 None \<Rightarrow> []
               | Some currCol \<Rightarrow>
                   if \<not> columnsEqual currCol desCol
                   then [AlterColumn tblName currCol desCol] else [])
            changes
      in changes)"

definition diffConstraints ::
  "TableOrder \<Rightarrow> ObjectName option \<Rightarrow> (string, TableConstraint) fmap
     \<Rightarrow> (string, TableConstraint) fmap \<Rightarrow> SchemaChange list" where
  "diffConstraints ord tblName current desired =
     (let changes = [];
          changes = range_map current (dropConstraintOrder ord)
            (\<lambda>name currCon.
               if fmlookup desired name = None
               then [DropConstraint tblName name
                       (GetReferenceItem (TableConstraint_Spec currCon) \<noteq> None)]
               else [])
            changes;
          changes = range_map desired (addConstraintOrder ord)
            (\<lambda>name desCon.
               if fmlookup current name = None then [AddConstraint tblName desCon] else [])
            changes
      in changes)"

definition diffTable :: "TableOrder \<Rightarrow> MetaTable \<Rightarrow> MetaTable \<Rightarrow> SchemaChange list" where
  "diffTable ord current desired =
     (let changes = [];
          changes =
            (if MetaTable_Comment current \<noteq> MetaTable_Comment desired
                \<or> \<not> mapsEqual (MetaTable_Options current) (MetaTable_Options desired)
             then changes @ [AlterTableOptions (MetaTable_Name desired)
                               (MetaTable_Options current) (MetaTable_Options desired)
                               (MetaTable_Comment current) (MetaTable_Comment desired)]
             else changes);
          currentCols = columnsFromElements (MetaTable_Elements current);
          desiredCols = columnsFromElements (MetaTable_Elements desired);
          currentConstraints = constraintsFromElements (MetaTable_Elements current);
          desiredConstraints = constraintsFromElements (MetaTable_Elements desired);
          colChanges = diffColumns ord (MetaTable_Name desired) currentCols desiredCols;
          changes = changes @ colChanges;
          constraintChanges =
            diffConstraints ord (MetaTable_Name desired) currentConstraints desiredConstraints;
          changes = changes @ constraintChanges
      in changes)"

text \<open>
  The body of the first loop of \<^verbatim>\<open>DiffDatabase\<close> for a table that is to be dropped:
  one \<^verbatim>\<open>DropConstraint\<close> for every element that is a table constraint, in the order
  of the elements, then the \<^verbatim>\<open>DropTable\<close>.
\<close>

definition dropTableChanges :: "MetaTable \<Rightarrow> SchemaChange list" where
  "dropTableChanges currTable =
     fold (\<lambda>elem changes.
             case GetTableConstraintElement elem of
               None \<Rightarrow> changes
             | Some tc \<Rightarrow>
                 changes @ [DropConstraint (MetaTable_Name currTable) (TableConstraint_Name tc)
                              (GetReferenceItem (TableConstraint_Spec tc) \<noteq> None)])
          (MetaTable_Elements currTable) []
     @ [DropTable (MetaTable_Name currTable)]"

definition diffTables ::
  "MapOrder \<Rightarrow> (string, MetaTable) fmap \<Rightarrow> (string, MetaTable) fmap \<Rightarrow> SchemaChange list" where
  "diffTables ord currentTables desiredTables =
     (let changes = [];
          changes = range_map currentTables (dropTableOrder ord)
            (\<lambda>name currTable.
               if fmlookup desiredTables name = None then dropTableChanges currTable else [])
            changes;
          changes = range_map desiredTables (addTableOrder ord)
            (\<lambda>name desTable.
               if fmlookup currentTables name = None then [AddTable desTable] else [])
            changes;
          changes = range_map desiredTables (diffTableOrder ord)
            (\<lambda>name desTable.
               case fmlookup currentTables name of
                 None \<Rightarrow> []
               | Some currTable \<Rightarrow> diffTable (tableOrder ord name) currTable desTable)
            changes
      in changes)"

text \<open>
  \<^verbatim>\<open>DiffDatabase\<close>: the result of a run whose map loops visit their keys in the
  orders \<open>ord\<close>. \<open>Inl\<close> is the panic of \<^verbatim>\<open>tablesByName\<close>.
\<close>

definition DiffDatabase ::
  "MapOrder \<Rightarrow> MetaDatabase option \<Rightarrow> MetaDatabase option \<Rightarrow> error + SchemaChange list" where
  "DiffDatabase ord current desired =
     (case tablesByName (GetTables current) of
        Inl e \<Rightarrow> Inl e
      | Inr currentTables \<Rightarrow>
          (case tablesByName (GetTables desired) of
             Inl e \<Rightarrow> Inl e
           | Inr desiredTables \<Rightarrow>
               Inr (SortChanges (diffTables ord currentTables desiredTables))))"

text \<open>
  The key orders \<open>ord\<close> are orders in which Go can run the map loops of
  \<^verbatim>\<open>DiffDatabase\<close> on the two table maps.
\<close>

definition table_order_ok :: "TableOrder \<Rightarrow> MetaTable \<Rightarrow> MetaTable \<Rightarrow> bool" where
  "table_order_ok ord current desired =
     (range_order (columnsFromElements (MetaTable_Elements current)) (dropColumnOrder ord)
      \<and> range_order (columnsFromElements (MetaTable_Elements desired)) (addColumnOrder ord)
      \<and> range_order (columnsFromElements (MetaTable_Elements desired)) (alterColumnOrder ord)
      \<and> range_order (constraintsFromElements (MetaTable_Elements current))
            (dropConstraintOrder ord)
      \<and> range_order (constraintsFromElements (MetaTable_Elements desired))
            (addConstraintOrder ord))"

definition map_order_ok ::
  "MapOrder \<Rightarrow> (string, MetaTable) fmap \<Rightarrow> (string, MetaTable) fmap \<Rightarrow> bool" where
  "map_order_ok ord currentTables desiredTables =
     (range_order currentTables (dropTableOrder ord)
      \<and> range_order desiredTables (addTableOrder ord)
      \<and> range_order desiredTables (diffTableOrder ord)
      \<and> fmpred (\<lambda>name desTable.
                  case fmlookup currentTables name of
                    None \<Rightarrow> True
                  | Some currTable \<Rightarrow> table_order_ok (tableOrder ord name) currTable desTable)
            desiredTables)"

text \<open>
  \<open>valid_order ord current desired\<close>: the key orders \<open>ord\<close> are orders of a run of
  \<^verbatim>\<open>DiffDatabase\<close> on the two snapshots. (A run that panics loops over no map.)
\<close>

definition valid_order :: "MapOrder \<Rightarrow> MetaDatabase option \<Rightarrow> MetaDatabase option \<Rightarrow> bool" where
  "valid_order ord current desired =
     (case tablesByName (GetTables current) of
        Inl e \<Rightarrow> True
      | Inr currentTables \<Rightarrow>
          (case tablesByName (GetTables desired) of
             Inl e \<Rightarrow> True
           | Inr desiredTables \<Rightarrow> map_order_ok ord currentTables desiredTables))"

text \<open>
  The invariants of the two loops of \<^verbatim>\<open>SortChanges\<close>. \<open>prefix_le k\<close>: each of the
  first \<open>k\<close> changes has at most the priority of every change after it. \<open>head_le i m\<close>:
  the change at \<open>i\<close> has at most the priority of every change between \<open>i\<close> and \<open>m\<close>.
\<close>

definition prefix_le :: "nat \<Rightarrow> SchemaChange list \<Rightarrow> bool" where
  "prefix_le k xs =
     (\<forall>a b. a < k \<and> a < b \<and> b < length xs \<longrightarrow> Priority (xs ! a) \<le> Priority (xs ! b))"

definition head_le :: "nat \<Rightarrow> nat \<Rightarrow> SchemaChange list \<Rightarrow> bool" where
  "head_le i m xs =
     (\<forall>b. i < b \<and> b < m \<and> b < length xs \<longrightarrow> Priority (xs ! i) \<le> Priority (xs ! b))"

text \<open>What a map loop emits at one key.\<close>

definition emitted :: "('k, 'v) fmap \<Rightarrow> ('k \<Rightarrow> 'v \<Rightarrow> 'c list) \<Rightarrow> 'k \<Rightarrow> 'c list" where
  "emitted m emit k = (case fmlookup m k of None \<Rightarrow> [] | Some v \<Rightarrow> emit k v)"

section \<open>The dialect conversion layer (convert.go)\<close>

text \<open>
  Modelled from the spec: the dialect-native message types (generated from
  \<^verbatim>\<open>pg_meta.proto\<close>, \<^verbatim>\<open>my_meta.proto\<close>, \<^verbatim>\<open>sqlite_meta.proto\<close> and
  \<^verbatim>\<open>bq_meta.proto\<close>) are not among the sources. Each record has the fields that the
  conversion functions read. A slice of pointers is a list of options.
\<close>

record PGColumn =
  PGColumn_Name :: string
  PGColumn_DataType :: "DataType option"
  PGColumn_DefaultValue :: string
  PGColumn_Comment :: string
  PGColumn_IsIdentity :: bool
  PGColumn_IdentityGeneration :: string
  PGColumn_IsGenerated :: bool
  PGColumn_GenerationExpression :: string
  PGColumn_IdentitySequence :: string
  PGColumn_IsPrimaryKey :: bool
  PGColumn_IsNullable :: bool

record PGConstraint =
  PGConstraint_Name :: string
  PGConstraint_Type :: string
  PGConstraint_Columns :: "string list"
  PGConstraint_Definition :: string

record PGForeignKey =
  PGForeignKey_Name :: string
  PGForeignKey_LocalColumns :: "string list"
  PGForeignKey_ForeignTable :: "ObjectName option"
  PGForeignKey_ForeignColumns :: "string list"
  PGForeignKey_OnUpdate :: string
  PGForeignKey_OnDelete :: string
  PGForeignKey_MatchOption :: string

record PGIndex =
  PGIndex_IsPrimary :: bool
  PGIndex_IsUnique :: bool

record PGTable =
  PGTable_Name :: "ObjectName option"
  PGTable_TableType :: string
  PGTable_Comment :: string
  PGTable_Owner :: string
  PGTable_Persistence :: string
  PGTable_HasRowSecurity :: bool
  PGTable_RowSecurityForced :: bool
  PGTable_Columns :: "PGColumn option list"
  PGTable_Constraints :: "PGConstraint option list"
  PGTable_ForeignKeys :: "PGForeignKey option list"
  PGTable_Indexes :: "PGIndex option list"

record MYColumn =
  MYColumn_Name :: string
  MYColumn_DataType :: "DataType option"
  MYColumn_DefaultValue :: string
  MYColumn_Comment :: string
  MYColumn_Charset :: string
  MYColumn_Collation :: string
  MYColumn_IsUnsigned :: bool
  MYColumn_IsPrimaryKey :: bool
  MYColumn_AutoIncrement :: bool
  MYColumn_IsNullable :: bool

record MYForeignKey =
  MYForeignKey_Name :: string
  MYForeignKey_LocalColumns :: "string list"
  MYForeignKey_ForeignTable :: "ObjectName option"
  MYForeignKey_ForeignColumns :: "string list"
  MYForeignKey_OnUpdate :: string
  MYForeignKey_OnDelete :: string

record MYIndex =
  MYIndex_Name :: string
  MYIndex_IsUnique :: bool
  MYIndex_IndexType :: string
  MYIndex_Columns :: "string list"

record MYTable =
  MYTable_Name :: "ObjectName option"
  MYTable_Comment :: string
  MYTable_Engine :: string
  MYTable_Charset :: string
  MYTable_Collation :: string
  MYTable_Columns :: "MYColumn option list"
  MYTable_ForeignKeys :: "MYForeignKey option list"
  MYTable_Indexes :: "MYIndex option list"

record SQLiteColumn =
  SQLiteColumn_Name :: string
  SQLiteColumn_DataType :: "DataType option"
  SQLiteColumn_DefaultValue :: string
  SQLiteColumn_IsPrimaryKey :: bool
  SQLiteColumn_IsNullable :: bool

record SQLiteTable =
  SQLiteTable_Name :: string
  SQLiteTable_Type :: string
  SQLiteTable_Columns :: "SQLiteColumn option list"

record BQColumn =
  BQColumn_Name :: string
  BQColumn_DataType :: "DataType option"
  BQColumn_Description :: string
  BQColumn_Mode :: string

record BQTable =
  BQTable_Name :: "ObjectName option"
  BQTable_Description :: string
  BQTable_Schema :: "BQColumn option list"

text \<open>
  \<^verbatim>\<open>strings.ToUpper\<close> and \<^verbatim>\<open>strings.Join\<close> of the Go library, on strings of ASCII
  characters.
\<close>

definition upper_char :: "char \<Rightarrow> char" where
  "upper_char c =
     (case map_of (zip ''abcdefghijklmnopqrstuvwxyz'' ''ABCDEFGHIJKLMNOPQRSTUVWXYZ'') c of
        None \<Rightarrow> c
      | Some u \<Rightarrow> u)"

definition ToUpper :: "string \<Rightarrow> string" where
  "ToUpper s = map upper_char s"

fun Join :: "string list \<Rightarrow> string \<Rightarrow> string" where
  "Join [] sep = ''''"
| "Join [x] sep = x"
| "Join (x # y # ys) sep = x @ sep @ Join (y # ys) sep"

text \<open>
  \<^verbatim>\<open>stringToAny\<close>: \<^verbatim>\<open>nil\<close> for the empty string, else the string packed as a
  \<^verbatim>\<open>StringValue\<close>. The payload is written as the string itself (packing a string
  does not fail).
\<close>

definition stringToAny :: "string \<Rightarrow> Any option" where
  "stringToAny s =
     (if s = '''' then None
      else Some \<lparr>TypeUrl = ''type.googleapis.com/google.protobuf.StringValue'', Payload = s\<rparr>)"

definition formatObjectName :: "ObjectName option \<Rightarrow> string" where
  "formatObjectName o' = (case o' of None \<Rightarrow> '''' | Some n \<Rightarrow> Join (Idents n) ''.'')"

definition mapReferentialAction :: "string \<Rightarrow> ReferentialAction" where
  "mapReferentialAction s =
     (let u = ToUpper s in
      if u = ''CASCADE'' then ReferentialAction_Cascade
      else if u = ''SET NULL'' then ReferentialAction_SetNull
      else if u = ''SET DEFAULT'' then ReferentialAction_SetDefault
      else if u = ''RESTRICT'' then ReferentialAction_Restrict
      else if u = ''NO ACTION'' then ReferentialAction_NoAction
      else ReferentialAction_Unknown)"

definition mapMatchOption :: "string \<Rightarrow> MatchOption" where
  "mapMatchOption s =
     (let u = ToUpper s in
      if u = ''FULL'' then MatchOption_Full
      else if u = ''PARTIAL'' then MatchOption_Partial
      else if u = ''SIMPLE'' then MatchOption_Simple
      else MatchOption_Unknown)"

text \<open>The two column constraints that the column conversions append.\<close>

definition primaryKeyColumnConstraint :: ColumnConstraint where
  "primaryKeyColumnConstraint =
     \<lparr>ColumnConstraint_Name = ''PRIMARY KEY'',
      ColumnConstraint_Spec = Some (ColumnUniqueItem True)\<rparr>"

definition notNullColumnConstraint :: ColumnConstraint where
  "notNullColumnConstraint =
     \<lparr>ColumnConstraint_Name = '''', ColumnConstraint_Spec = Some NotNullItem\<rparr>"

subsection \<open>Postgres\<close>

definition PGColumnToColumnDef :: "PGColumn option \<Rightarrow> ColumnDef option" where
  "PGColumnToColumnDef c' =
     (case c' of
        None \<Rightarrow> None
      | Some c \<Rightarrow>
          (let colDef =
                 \<lparr>ColumnDef_Name = PGColumn_Name c,
                  ColumnDef_DataType = PGColumn_DataType c,
                  ColumnDef_Default = stringToAny (PGColumn_DefaultValue c),
                  ColumnDef_Constraints = [],
                  ColumnDef_Comment = PGColumn_Comment c,
                  ColumnDef_Options = fmempty,
                  ColumnDef_MyDecos = []\<rparr>;
               colDef =
                 (if PGColumn_IsIdentity c
                  then colDef\<lparr>ColumnDef_Options :=
                         fmupd ''IdentityGeneration'' (PGColumn_IdentityGeneration c)
                           (fmupd ''IsIdentity'' ''true'' (ColumnDef_Options colDef))\<rparr>
                  else colDef);
               colDef =
                 (if PGColumn_IsGenerated c
                  then colDef\<lparr>ColumnDef_Options :=
                         fmupd ''GenerationExpression'' (PGColumn_GenerationExpression c)
                           (fmupd ''IsGenerated'' ''true'' (ColumnDef_Options colDef))\<rparr>
                  else colDef);
               colDef =
                 (if PGColumn_IdentitySequence c \<noteq> ''''
                  then colDef\<lparr>ColumnDef_Options :=
                         fmupd ''IdentitySequence'' (PGColumn_IdentitySequence c)
                           (ColumnDef_Options colDef)\<rparr>
                  else colDef);
               colDef =
                 (if PGColumn_IsPrimaryKey c
                  then colDef\<lparr>ColumnDef_Constraints :=
                         ColumnDef_Constraints colDef @ [primaryKeyColumnConstraint]\<rparr>
                  else colDef);
               colDef =
                 (if \<not> PGColumn_IsNullable c
                  then colDef\<lparr>ColumnDef_Constraints :=
                         ColumnDef_Constraints colDef @ [notNullColumnConstraint]\<rparr>
                  else colDef)
           in Some colDef))"

definition PGConstraintToTableConstraint :: "PGConstraint option \<Rightarrow> TableConstraint option" where
  "PGConstraintToTableConstraint c' =
     (case c' of
        None \<Rightarrow> None
      | Some c \<Rightarrow>
          if PGConstraint_Type c = ''p''
          then Some \<lparr>TableConstraint_Name = PGConstraint_Name c,
                     TableConstraint_Spec = Some (UniqueItem (Some
                       \<lparr>IsPrimary = True,
                        UniqueTableConstraint_Columns = PGConstraint_Columns c,
                        IndexName = ''''\<rparr>))\<rparr>
          else if PGConstraint_Type c = ''u''
          then Some \<lparr>TableConstraint_Name = PGConstraint_Name c,
                     TableConstraint_Spec = Some (UniqueItem (Some
                       \<lparr>IsPrimary = False,
                        UniqueTableConstraint_Columns = PGConstraint_Columns c,
                        IndexName = ''''\<rparr>))\<rparr>
          else if PGConstraint_Type c = ''c''
          then Some \<lparr>TableConstraint_Name = PGConstraint_Name c,
                     TableConstraint_Spec =
                       Some (CheckItem (stringToAny (PGConstraint_Definition c)))\<rparr>
          else None)"

definition PGForeignKeyToTableConstraint :: "PGForeignKey option \<Rightarrow> TableConstraint option" where
  "PGForeignKeyToTableConstraint fk' =
     (case fk' of
        None \<Rightarrow> None
      | Some fk \<Rightarrow>
          Some \<lparr>TableConstraint_Name = PGForeignKey_Name fk,
                TableConstraint_Spec = Some (ReferenceItem (Some
                  \<lparr>ReferentialTableConstraint_Columns = PGForeignKey_LocalColumns fk,
                   KeyExpr = Some
                     \<lparr>ReferenceKeyExpr_TableName =
                        formatObjectName (PGForeignKey_ForeignTable fk),
                      ReferenceKeyExpr_Columns = PGForeignKey_ForeignColumns fk\<rparr>,
                   OnUpdate = mapReferentialAction (PGForeignKey_OnUpdate fk),
                   OnDelete = mapReferentialAction (PGForeignKey_OnDelete fk),
                   Match = mapMatchOption (PGForeignKey_MatchOption fk)\<rparr>))\<rparr>)"

text \<open>
  The last loop of \<^verbatim>\<open>PGTableToMetaTable\<close> reads \<^verbatim>\<open>idx.IsPrimary\<close> and
  \<^verbatim>\<open>idx.IsUnique\<close> of every index and has an empty body: it appends nothing, and it
  panics on a \<^verbatim>\<open>nil\<close> index.
\<close>

fun PGIndexes_loop :: "TableElement list \<Rightarrow> PGIndex option list \<Rightarrow> error + TableElement list" where
  "PGIndexes_loop elements [] = Inr elements"
| "PGIndexes_loop elements (None # indexes) = Inl NilPointerDereference"
| "PGIndexes_loop elements (Some idx # indexes) =
     (if PGIndex_IsPrimary idx \<or> PGIndex_IsUnique idx
      then PGIndexes_loop elements indexes
      else PGIndexes_loop elements indexes)"

definition PGTableToMetaTable :: "PGTable option \<Rightarrow> error + MetaTable option" where
  "PGTableToMetaTable t' =
     (case t' of
        None \<Rightarrow> Inr None
      | Some t \<Rightarrow>
          (let options = fmempty;
               options = (if PGTable_Owner t \<noteq> ''''
                          then fmupd ''Owner'' (PGTable_Owner t) options else options);
               options = (if PGTable_Persistence t \<noteq> ''''
                          then fmupd ''Persistence'' (PGTable_Persistence t) options
                          else options);
               options = (if PGTable_HasRowSecurity t
                          then fmupd ''HasRowSecurity'' ''true'' options else options);
               options = (if PGTable_RowSecurityForced t
                          then fmupd ''RowSecurityForced'' ''true'' options else options);
               elements = [];
               elements = fold (\<lambda>col elements.
                             elements @ [ColumnDefElement (PGColumnToColumnDef col)])
                            (PGTable_Columns t) elements;
               elements = fold (\<lambda>con elements.
                             case PGConstraintToTableConstraint con of
                               None \<Rightarrow> elements
                             | Some tc \<Rightarrow> elements @ [TableConstraintElement (Some tc)])
                            (PGTable_Constraints t) elements;
               elements = fold (\<lambda>fk elements.
                             case PGForeignKeyToTableConstraint fk of
                               None \<Rightarrow> elements
                             | Some tc \<Rightarrow> elements @ [TableConstraintElement (Some tc)])
                            (PGTable_ForeignKeys t) elements
           in case PGIndexes_loop elements (PGTable_Indexes t) of
                Inl e \<Rightarrow> Inl e
              | Inr elements \<Rightarrow>
                  Inr (Some \<lparr>MetaTable_Name = PGTable_Name t,
                             MetaTable_Type = PGTable_TableType t,
                             MetaTable_Elements = elements,
                             MetaTable_Comment = PGTable_Comment t,
                             MetaTable_Options = options\<rparr>)))"

subsection \<open>MySQL\<close>

definition MYColumnToColumnDef :: "MYColumn option \<Rightarrow> ColumnDef option" where
  "MYColumnToColumnDef c' =
     (case c' of
        None \<Rightarrow> None
      | Some c \<Rightarrow>
          (let colDef =
                 \<lparr>ColumnDef_Name = MYColumn_Name c,
                  ColumnDef_DataType = MYColumn_DataType c,
                  ColumnDef_Default = stringToAny (MYColumn_DefaultValue c),
                  ColumnDef_Constraints = [],
                  ColumnDef_Comment = MYColumn_Comment c,
                  ColumnDef_Options = fmempty,
                  ColumnDef_MyDecos = []\<rparr>;
               colDef =
                 (if MYColumn_Charset c \<noteq> ''''
                  then colDef\<lparr>ColumnDef_Options :=
                         fmupd ''Charset'' (MYColumn_Charset c) (ColumnDef_Options colDef)\<rparr>
                  else colDef);
               colDef =
                 (if MYColumn_Collation c \<noteq> ''''
                  then colDef\<lparr>ColumnDef_Options :=
                         fmupd ''Collation'' (MYColumn_Collation c) (ColumnDef_Options colDef)\<rparr>
                  else colDef);
               colDef =
                 (if MYColumn_IsUnsigned c
                  then colDef\<lparr>ColumnDef_Options :=
                         fmupd ''IsUnsigned'' ''true'' (ColumnDef_Options colDef)\<rparr>
                  else colDef);
               colDef =
                 (if MYColumn_IsPrimaryKey c
                  then colDef\<lparr>ColumnDef_Constraints :=
                         ColumnDef_Constraints colDef @ [primaryKeyColumnConstraint]\<rparr>
                  else colDef);
               colDef =
                 (if MYColumn_AutoIncrement c
                  then colDef\<lparr>ColumnDef_MyDecos :=
                         ColumnDef_MyDecos colDef @ [AutoIncrementConfirm]\<rparr>
                  else colDef);
               colDef =
                 (if \<not> MYColumn_IsNullable c
                  then colDef\<lparr>ColumnDef_Constraints :=
                         ColumnDef_Constraints colDef @ [notNullColumnConstraint]\<rparr>
                  else colDef)
           in Some colDef))"

definition MYForeignKeyToTableConstraint :: "MYForeignKey option \<Rightarrow> TableConstraint option" where
  "MYForeignKeyToTableConstraint fk' =
     (case fk' of
        None \<Rightarrow> None
      | Some fk \<Rightarrow>
          Some \<lparr>TableConstraint_Name = MYForeignKey_Name fk,
                TableConstraint_Spec = Some (ReferenceItem (Some
                  \<lparr>ReferentialTableConstraint_Columns = MYForeignKey_LocalColumns fk,
                   KeyExpr = Some
                     \<lparr>ReferenceKeyExpr_TableName =
                        formatObjectName (MYForeignKey_ForeignTable fk),
                      ReferenceKeyExpr_Columns = MYForeignKey_ForeignColumns fk\<rparr>,
                   OnUpdate = mapReferentialAction (MYForeignKey_OnUpdate fk),
                   OnDelete = mapReferentialAction (MYForeignKey_OnDelete fk),
                   Match = MatchOption_Unknown\<rparr>))\<rparr>)"

definition MYIndexToTableConstraint :: "MYIndex option \<Rightarrow> TableConstraint option" where
  "MYIndexToTableConstraint idx' =
     (case idx' of
        None \<Rightarrow> None
      | Some idx \<Rightarrow>
          (let isPrimary = (ToUpper (MYIndex_Name idx) = ''PRIMARY'') in
           if \<not> isPrimary \<and> \<not> MYIndex_IsUnique idx then None
           else Some \<lparr>TableConstraint_Name = MYIndex_Name idx,
                      TableConstraint_Spec = Some (UniqueItem (Some
                        \<lparr>IsPrimary = isPrimary,
                         UniqueTableConstraint_Columns = MYIndex_Columns idx,
                         IndexName = MYIndex_Name idx\<rparr>))\<rparr>))"

text \<open>
  The last loop of \<^verbatim>\<open>MYTableToMetaTable\<close> reads \<^verbatim>\<open>idx.IsUnique\<close> of every index,
  so a \<^verbatim>\<open>nil\<close> index panics.
\<close>

fun MYIndexes_loop :: "TableElement list \<Rightarrow> MYIndex option list \<Rightarrow> error + TableElement list" where
  "MYIndexes_loop elements [] = Inr elements"
| "MYIndexes_loop elements (None # indexes) = Inl NilPointerDereference"
| "MYIndexes_loop elements (Some idx # indexes) =
     (if MYIndex_IsUnique idx \<or> ToUpper (MYIndex_IndexType idx) = ''PRIMARY''
      then (case MYIndexToTableConstraint (Some idx) of
              None \<Rightarrow> MYIndexes_loop elements indexes
            | Some tc \<Rightarrow> MYIndexes_loop (elements @ [TableConstraintElement (Some tc)]) indexes)
      else MYIndexes_loop elements indexes)"

definition MYTableToMetaTable :: "MYTable option \<Rightarrow> error + MetaTable option" where
  "MYTableToMetaTable t' =
     (case t' of
        None \<Rightarrow> Inr None
      | Some t \<Rightarrow>
          (let options = fmempty;
               options = (if MYTable_Engine t \<noteq> ''''
                          then fmupd ''Engine'' (MYTable_Engine t) options else options);
               options = (if MYTable_Charset t \<noteq> ''''
                          then fmupd ''Charset'' (MYTable_Charset t) options else options);
               options = (if MYTable_Collation t \<noteq> ''''
                          then fmupd ''Collation'' (MYTable_Collation t) options else options);
               elements = [];
               elements = fold (\<lambda>col elements.
                             elements @ [ColumnDefElement (MYColumnToColumnDef col)])
                            (MYTable_Columns t) elements;
               elements = fold (\<lambda>fk elements.
                             case MYForeignKeyToTableConstraint fk of
                               None \<Rightarrow> elements
                             | Some tc \<Rightarrow> elements @ [TableConstraintElement (Some tc)])
                            (MYTable_ForeignKeys t) elements
           in case MYIndexes_loop elements (MYTable_Indexes t) of
                Inl e \<Rightarrow> Inl e
              | Inr elements \<Rightarrow>
                  Inr (Some \<lparr>MetaTable_Name = MYTable_Name t,
                             MetaTable_Type = '''',
                             MetaTable_Elements = elements,
                             MetaTable_Comment = MYTable_Comment t,
                             MetaTable_Options = options\<rparr>)))"

subsection \<open>SQLite and BigQuery\<close>

definition SQLiteColumnToColumnDef :: "SQLiteColumn option \<Rightarrow> ColumnDef option" where
  "SQLiteColumnToColumnDef c' =
     (case c' of
        None \<Rightarrow> None
      | Some c \<Rightarrow>
          (let colDef =
                 \<lparr>ColumnDef_Name = SQLiteColumn_Name c,
                  ColumnDef_DataType = SQLiteColumn_DataType c,
                  ColumnDef_Default = stringToAny (SQLiteColumn_DefaultValue c),
                  ColumnDef_Constraints = [],
                  ColumnDef_Comment = '''',
                  ColumnDef_Options = fmempty,
                  ColumnDef_MyDecos = []\<rparr>;
               colDef =
                 (if SQLiteColumn_IsPrimaryKey c
                  then colDef\<lparr>ColumnDef_Constraints :=
                         ColumnDef_Constraints colDef @ [primaryKeyColumnConstraint]\<rparr>
                  else colDef);
               colDef =
                 (if \<not> SQLiteColumn_IsNullable c
                  then colDef\<lparr>ColumnDef_Constraints :=
                         ColumnDef_Constraints colDef @ [notNullColumnConstraint]\<rparr>
                  else colDef)
           in Some colDef))"

definition SQLiteTableToMetaTable :: "SQLiteTable option \<Rightarrow> MetaTable option" where
  "SQLiteTableToMetaTable t' =
     (case t' of
        None \<Rightarrow> None
      | Some t \<Rightarrow>
          (let elements = [];
               elements = fold (\<lambda>col elements.
                             elements @ [ColumnDefElement (SQLiteColumnToColumnDef col)])
                            (SQLiteTable_Columns t) elements
           in Some \<lparr>MetaTable_Name = Some \<lparr>Idents = [SQLiteTable_Name t]\<rparr>,
                     MetaTable_Type = SQLiteTable_Type t,
                     MetaTable_Elements = elements,
                     MetaTable_Comment = '''',
                     MetaTable_Options = fmempty\<rparr>))"

definition BQColumnToColumnDef :: "BQColumn option \<Rightarrow> ColumnDef option" where
  "BQColumnToColumnDef c' =
     (case c' of
        None \<Rightarrow> None
      | Some c \<Rightarrow>
          (let colDef =
                 \<lparr>ColumnDef_Name = BQColumn_Name c,
                  ColumnDef_DataType = BQColumn_DataType c,
                  ColumnDef_Default = None,
                  ColumnDef_Constraints = [],
                  ColumnDef_Comment = BQColumn_Description c,
                  ColumnDef_Options = fmempty,
                  ColumnDef_MyDecos = []\<rparr>;
               mode = ToUpper (BQColumn_Mode c);
               colDef =
                 (if mode = ''REQUIRED''
                  then colDef\<lparr>ColumnDef_Constraints :=
                         ColumnDef_Constraints colDef @ [notNullColumnConstraint]\<rparr>
                  else colDef)
           in Some colDef))"

definition BQTableToMetaTable :: "BQTable option \<Rightarrow> MetaTable option" where
  "BQTableToMetaTable t' =
     (case t' of
        None \<Rightarrow> None
      | Some t \<Rightarrow>
          (let elements = [];
               elements = fold (\<lambda>col elements.
                             elements @ [ColumnDefElement (BQColumnToColumnDef col)])
                            (BQTable_Schema t) elements
           in Some \<lparr>MetaTable_Name = BQTable_Name t,
                     MetaTable_Type = '''',
                     MetaTable_Elements = elements,
                     MetaTable_Comment = BQTable_Description t,
                     MetaTable_Options = fmempty\<rparr>))"

text \<open>
  The test of the last loop of \<^verbatim>\<open>MYTableToMetaTable\<close>: the index is unique or its
  type is \<open>PRIMARY\<close>.
\<close>

definition promoted :: "MYIndex option \<Rightarrow> bool" where
  "promoted idx' =
     (case idx' of
        None \<Rightarrow> False
      | Some idx \<Rightarrow> MYIndex_IsUnique idx \<or> ToUpper (MYIndex_IndexType idx) = ''PRIMARY'')"

section \<open>Reading the list of changes\<close>

text \<open>The table a change names.\<close>

fun change_table :: "SchemaChange \<Rightarrow> ObjectName option" where
  "change_table (AddTable t) = MetaTable_Name t"
| "change_table (DropTable n) = n"
| "change_table (AlterTableOptions n oo no oc nc) = n"
| "change_table (AddColumn n c) = n"
| "change_table (DropColumn n c) = n"
| "change_table (AlterColumn n oc nc) = n"
| "change_table (AddConstraint n c) = n"
| "change_table (DropConstraint n c fk) = n"

text \<open>
  \<open>column_changes tn col changes\<close>: the changes of the list that drop, add or alter the
  column \<open>col\<close> of the table named \<open>tn\<close>, in the order of the list.
\<close>

fun is_column_change :: "ObjectName option \<Rightarrow> string \<Rightarrow> SchemaChange \<Rightarrow> bool" where
  "is_column_change tn col (DropColumn n c) = (n = tn \<and> c = col)"
| "is_column_change tn col (AddColumn n c) = (n = tn \<and> ColumnDef_Name c = col)"
| "is_column_change tn col (AlterColumn n oc nc) =
     (n = tn \<and> (ColumnDef_Name oc = col \<or> ColumnDef_Name nc = col))"
| "is_column_change tn col (AddTable t) = False"
| "is_column_change tn col (DropTable n) = False"
| "is_column_change tn col (AlterTableOptions n oo no oc nc) = False"
| "is_column_change tn col (AddConstraint n c) = False"
| "is_column_change tn col (DropConstraint n c fk) = False"

definition column_changes ::
  "ObjectName option \<Rightarrow> string \<Rightarrow> SchemaChange list \<Rightarrow> SchemaChange list" where
  "column_changes tn col changes = filter (is_column_change tn col) changes"

text \<open>
  \<open>constraint_changes tn con changes\<close>: the changes of the list that add or drop the
  constraint named \<open>con\<close> of the table named \<open>tn\<close>.
\<close>

fun is_constraint_change :: "ObjectName option \<Rightarrow> string \<Rightarrow> SchemaChange \<Rightarrow> bool" where
  "is_constraint_change tn con (AddConstraint n c) = (n = tn \<and> TableConstraint_Name c = con)"
| "is_constraint_change tn con (DropConstraint n c fk) = (n = tn \<and> c = con)"
| "is_constraint_change tn con (AddTable t) = False"
| "is_constraint_change tn con (DropTable n) = False"
| "is_constraint_change tn con (AlterTableOptions n oo no oc nc) = False"
| "is_constraint_change tn con (AddColumn n c) = False"
| "is_constraint_change tn con (DropColumn n c) = False"
| "is_constraint_change tn con (AlterColumn n oc nc) = False"

definition constraint_changes ::
  "ObjectName option \<Rightarrow> string \<Rightarrow> SchemaChange list \<Rightarrow> SchemaChange list" where
  "constraint_changes tn con changes = filter (is_constraint_change tn con) changes"

section \<open>Example snapshots\<close>

text \<open>
  The fixtures of \<^verbatim>\<open>diff_test.go\<close>: a struct literal that names some fields leaves
  the others at their zero value.
\<close>

definition example_column :: "string \<Rightarrow> ColumnDef" where
  "example_column n =
     \<lparr>ColumnDef_Name = n, ColumnDef_DataType = None, ColumnDef_Default = None,
      ColumnDef_Constraints = [], ColumnDef_Comment = '''', ColumnDef_Options = fmempty,
      ColumnDef_MyDecos = []\<rparr>"

definition example_table :: "string list \<Rightarrow> TableElement list \<Rightarrow> MetaTable" where
  "example_table ids elems =
     \<lparr>MetaTable_Name = Some \<lparr>Idents = ids\<rparr>, MetaTable_Type = '''',
      MetaTable_Elements = elems, MetaTable_Comment = '''', MetaTable_Options = fmempty\<rparr>"

definition example_database :: "MetaTable list \<Rightarrow> MetaDatabase option" where
  "example_database ts = Some \<lparr>MetaDatabase_Name = ''testdb'', Tables = map Some ts\<rparr>"

definition example_foreign_key :: "string \<Rightarrow> TableElement" where
  "example_foreign_key n =
     TableConstraintElement (Some \<lparr>TableConstraint_Name = n,
       TableConstraint_Spec = Some (ReferenceItem (Some
         \<lparr>ReferentialTableConstraint_Columns = [], KeyExpr = None,
          OnUpdate = ReferentialAction_Unknown, OnDelete = ReferentialAction_Unknown,
          Match = MatchOption_Unknown\<rparr>))\<rparr>)"

definition no_table_order :: TableOrder where
  "no_table_order =
     \<lparr>dropColumnOrder = [], addColumnOrder = [], alterColumnOrder = [],
      dropConstraintOrder = [], addConstraintOrder = []\<rparr>"

text \<open>Two tables, each with a foreign key, are dropped.\<close>

definition drop_two_current :: "MetaDatabase option" where
  "drop_two_current = example_database
     [example_table [''shop'', ''orders''] [example_foreign_key ''fk_user''],
      example_table [''shop'', ''items''] [example_foreign_key ''fk_order'']]"

definition drop_two_order :: MapOrder where
  "drop_two_order =
     \<lparr>dropTableOrder = [''orders'', ''items''], addTableOrder = [], diffTableOrder = [],
      tableOrder = (\<lambda>name. no_table_order)\<rparr>"

text \<open>A snapshot of one table \<open>users(id)\<close>, compared with itself.\<close>

definition users_id :: "MetaDatabase option" where
  "users_id = example_database
     [example_table [''users''] [ColumnDefElement (Some (example_column ''id''))]]"

definition users_id_order :: MapOrder where
  "users_id_order =
     \<lparr>dropTableOrder = [''users''], addTableOrder = [''users''], diffTableOrder = [''users''],
      tableOrder = (\<lambda>name.
        \<lparr>dropColumnOrder = [''id''], addColumnOrder = [''id''], alterColumnOrder = [''id''],
         dropConstraintOrder = [], addConstraintOrder = []\<rparr>)\<rparr>"

text \<open>
  Two tables are added to an empty database; the second loop of \<^verbatim>\<open>DiffDatabase\<close>
  visits them in one order or the other.
\<close>

definition add_two_desired :: "MetaDatabase option" where
  "add_two_desired = example_database
     [example_table [''accounts''] [], example_table [''users''] []]"

definition accounts_first :: MapOrder where
  "accounts_first =
     \<lparr>dropTableOrder = [], addTableOrder = [''accounts'', ''users''],
      diffTableOrder = [''accounts'', ''users''], tableOrder = (\<lambda>name. no_table_order)\<rparr>"

definition users_first :: MapOrder where
  "users_first =
     \<lparr>dropTableOrder = [], addTableOrder = [''users'', ''accounts''],
      diffTableOrder = [''accounts'', ''users''], tableOrder = (\<lambda>name. no_table_order)\<rparr>"

text \<open>
  The table \<open>users\<close> in both snapshots: the column \<open>legacy_field\<close> only in the current
  one, \<open>email\<close> only in the desired one, \<open>name\<close> with another comment, and \<open>id\<close> with
  another list of constraints and another option.
\<close>

definition users_before :: MetaTable where
  "users_before = example_table [''users'']
     [ColumnDefElement (Some ((example_column ''id'')
        \<lparr>ColumnDef_Constraints :=
           [\<lparr>ColumnConstraint_Name = ''PRIMARY KEY'',
             ColumnConstraint_Spec = Some (ColumnUniqueItem True)\<rparr>],
         ColumnDef_Options := fmupd ''IsIdentity'' ''true'' fmempty\<rparr>)),
      ColumnDefElement (Some ((example_column ''name'')\<lparr>ColumnDef_Comment := ''User name''\<rparr>)),
      ColumnDefElement (Some (example_column ''legacy_field''))]"

definition users_after :: MetaTable where
  "users_after = example_table [''users'']
     [ColumnDefElement (Some (example_column ''id'')),
      ColumnDefElement (Some ((example_column ''name'')\<lparr>ColumnDef_Comment := ''Full name''\<rparr>)),
      ColumnDefElement (Some (example_column ''email''))]"

definition users_order :: MapOrder where
  "users_order =
     \<lparr>dropTableOrder = [''users''], addTableOrder = [''users''], diffTableOrder = [''users''],
      tableOrder = (\<lambda>name.
        \<lparr>dropColumnOrder = [''legacy_field'', ''name'', ''id''],
         addColumnOrder = [''id'', ''email'', ''name''],
         alterColumnOrder = [''name'', ''id'', ''email''],
         dropConstraintOrder = [], addConstraintOrder = []\<rparr>)\<rparr>"

text \<open>
  The table \<open>orders\<close> in both snapshots: the constraint \<open>fk_user\<close> is a foreign key in
  the current one and a unique constraint in the desired one; \<open>uq_old\<close> is only in the
  current one.
\<close>

definition example_unique :: "string \<Rightarrow> string list \<Rightarrow> TableElement" where
  "example_unique n cols =
     TableConstraintElement (Some \<lparr>TableConstraint_Name = n,
       TableConstraint_Spec = Some (UniqueItem (Some
         \<lparr>IsPrimary = False, UniqueTableConstraint_Columns = cols, IndexName = ''''\<rparr>))\<rparr>)"

definition orders_before :: MetaTable where
  "orders_before = example_table [''orders'']
     [example_foreign_key ''fk_user'', example_unique ''uq_old'' [''code'']]"

definition orders_after :: MetaTable where
  "orders_after = example_table [''orders''] [example_unique ''fk_user'' [''user_id'']]"

definition orders_order :: MapOrder where
  "orders_order =
     \<lparr>dropTableOrder = [''orders''], addTableOrder = [''orders''], diffTableOrder = [''orders''],
      tableOrder = (\<lambda>name.
        \<lparr>dropColumnOrder = [], addColumnOrder = [], alterColumnOrder = [],
         dropConstraintOrder = [''uq_old'', ''fk_user''], addConstraintOrder = [''fk_user'']\<rparr>)\<rparr>"

text \<open>The result of the run on the two \<open>users\<close> snapshots.\<close>

definition users_changes :: "SchemaChange list" where
  "users_changes =
     [DropColumn (Some \<lparr>Idents = [''users'']\<rparr>) ''legacy_field'',
      AddColumn (Some \<lparr>Idents = [''users'']\<rparr>) (example_column ''email''),
      AlterColumn (Some \<lparr>Idents = [''users'']\<rparr>)
        ((example_column ''name'')\<lparr>ColumnDef_Comment := ''User name''\<rparr>)
        ((example_column ''name'')\<lparr>ColumnDef_Comment := ''Full name''\<rparr>)]"

text \<open>
  A table \<open>orders\<close> whose only element is a check constraint without a name; the table is
  in the current snapshot only.
\<close>

definition unnamed_check :: TableElement where
  "unnamed_check =
     TableConstraintElement (Some \<lparr>TableConstraint_Name = '''',
       TableConstraint_Spec = Some (CheckItem (Some
         \<lparr>TypeUrl = ''type.googleapis.com/google.protobuf.StringValue'',
          Payload = ''total > 0''\<rparr>))\<rparr>)"

definition orders_unnamed :: "MetaDatabase option" where
  "orders_unnamed = example_database [example_table [''orders''] [unnamed_check]]"

definition orders_unnamed_order :: MapOrder where
  "orders_unnamed_order =
     \<lparr>dropTableOrder = [''orders''], addTableOrder = [], diffTableOrder = [],
      tableOrder = (\<lambda>name. no_table_order)\<rparr>"

text \<open>
  \<open>no_name on\<close>: the qualified name is missing (\<^verbatim>\<open>nil\<close>) or has no identifier.
\<close>

definition no_name :: "ObjectName option \<Rightarrow> bool" where
  "no_name on = (case on of None \<Rightarrow> True | Some n \<Rightarrow> Idents n = [])"

text \<open>
  A table without a name in the current snapshot and a table with an empty list of
  identifiers in the desired one, which has the column \<open>b\<close> more.
\<close>

definition nameless_before :: MetaTable where
  "nameless_before =
     \<lparr>MetaTable_Name = None, MetaTable_Type = '''',
      MetaTable_Elements = [ColumnDefElement (Some (example_column ''a''))],
      MetaTable_Comment = '''', MetaTable_Options = fmempty\<rparr>"

definition nameless_after :: MetaTable where
  "nameless_after = example_table []
     [ColumnDefElement (Some (example_column ''a'')),
      ColumnDefElement (Some (example_column ''b''))]"

definition nameless_order :: MapOrder where
  "nameless_order =
     \<lparr>dropTableOrder = [''''], addTableOrder = [''''], diffTableOrder = [''''],
      tableOrder = (\<lambda>name.
        \<lparr>dropColumnOrder = [''a''], addColumnOrder = [''a'', ''b''],
         alterColumnOrder = [''b'', ''a''],
         dropConstraintOrder = [], addConstraintOrder = []\<rparr>)\<rparr>"

text \<open>
  Dialect tables for the conversion layer. The Postgres table \<open>pg_users\<close> has a column,
  a primary-key constraint, an exclusion constraint (type \<open>x\<close>), a foreign key and a
  unique index; \<open>pg_indexed\<close> has only a unique index. The MySQL table \<open>my_users\<close> has a
  column, a foreign key, the index \<open>PRIMARY\<close> and an index that is not unique.
\<close>

definition pg_id :: PGColumn where
  "pg_id =
     \<lparr>PGColumn_Name = ''id'', PGColumn_DataType = Some IntData,
      PGColumn_DefaultValue = '''', PGColumn_Comment = '''', PGColumn_IsIdentity = False,
      PGColumn_IdentityGeneration = '''', PGColumn_IsGenerated = False,
      PGColumn_GenerationExpression = '''', PGColumn_IdentitySequence = '''',
      PGColumn_IsPrimaryKey = True, PGColumn_IsNullable = False\<rparr>"

definition pg_fk :: PGForeignKey where
  "pg_fk =
     \<lparr>PGForeignKey_Name = ''fk_org'', PGForeignKey_LocalColumns = [''org_id''],
      PGForeignKey_ForeignTable = Some \<lparr>Idents = [''public'', ''orgs'']\<rparr>,
      PGForeignKey_ForeignColumns = [''id''], PGForeignKey_OnUpdate = ''no action'',
      PGForeignKey_OnDelete = ''cascade'', PGForeignKey_MatchOption = ''simple''\<rparr>"

definition pg_users :: PGTable where
  "pg_users =
     \<lparr>PGTable_Name = Some \<lparr>Idents = [''public'', ''users'']\<rparr>,
      PGTable_TableType = ''BASE TABLE'', PGTable_Comment = ''User table'',
      PGTable_Owner = ''postgres'', PGTable_Persistence = '''',
      PGTable_HasRowSecurity = False, PGTable_RowSecurityForced = False,
      PGTable_Columns = [Some pg_id],
      PGTable_Constraints =
        [Some \<lparr>PGConstraint_Name = ''users_pkey'', PGConstraint_Type = ''p'',
               PGConstraint_Columns = [''id''], PGConstraint_Definition = ''''\<rparr>,
         Some \<lparr>PGConstraint_Name = ''users_excl'', PGConstraint_Type = ''x'',
               PGConstraint_Columns = [''id''], PGConstraint_Definition = ''''\<rparr>],
      PGTable_ForeignKeys = [Some pg_fk],
      PGTable_Indexes = [Some \<lparr>PGIndex_IsPrimary = False, PGIndex_IsUnique = True\<rparr>]\<rparr>"

definition pg_indexed :: PGTable where
  "pg_indexed =
     \<lparr>PGTable_Name = Some \<lparr>Idents = [''public'', ''events'']\<rparr>,
      PGTable_TableType = ''BASE TABLE'', PGTable_Comment = '''',
      PGTable_Owner = '''', PGTable_Persistence = '''',
      PGTable_HasRowSecurity = False, PGTable_RowSecurityForced = False,
      PGTable_Columns = [], PGTable_Constraints = [], PGTable_ForeignKeys = [],
      PGTable_Indexes = [Some \<lparr>PGIndex_IsPrimary = False, PGIndex_IsUnique = True\<rparr>]\<rparr>"

definition my_id :: MYColumn where
  "my_id =
     \<lparr>MYColumn_Name = ''id'', MYColumn_DataType = Some IntData,
      MYColumn_DefaultValue = '''', MYColumn_Comment = '''', MYColumn_Charset = '''',
      MYColumn_Collation = '''', MYColumn_IsUnsigned = False, MYColumn_IsPrimaryKey = True,
      MYColumn_AutoIncrement = True, MYColumn_IsNullable = False\<rparr>"

definition my_fk :: MYForeignKey where
  "my_fk =
     \<lparr>MYForeignKey_Name = ''fk_org'', MYForeignKey_LocalColumns = [''org_id''],
      MYForeignKey_ForeignTable = Some \<lparr>Idents = [''shop'', ''orgs'']\<rparr>,
      MYForeignKey_ForeignColumns = [''id''], MYForeignKey_OnUpdate = '''',
      MYForeignKey_OnDelete = ''''\<rparr>"

definition my_primary :: MYIndex where
  "my_primary =
     \<lparr>MYIndex_Name = ''PRIMARY'', MYIndex_IsUnique = True, MYIndex_IndexType = ''BTREE'',
      MYIndex_Columns = [''id'']\<rparr>"

definition my_users :: MYTable where
  "my_users =
     \<lparr>MYTable_Name = Some \<lparr>Idents = [''shop'', ''users'']\<rparr>, MYTable_Comment = '''',
      MYTable_Engine = ''InnoDB'', MYTable_Charset = '''', MYTable_Collation = '''',
      MYTable_Columns = [Some my_id], MYTable_ForeignKeys = [Some my_fk],
      MYTable_Indexes =
        [Some my_primary,
         Some \<lparr>MYIndex_Name = ''idx_name'', MYIndex_IsUnique = False,
               MYIndex_IndexType = ''BTREE'', MYIndex_Columns = [''name'']\<rparr>]\<rparr>"

definition lite_users :: SQLiteTable where
  "lite_users =
     \<lparr>SQLiteTable_Name = ''users'', SQLiteTable_Type = ''table'',
      SQLiteTable_Columns =
        [Some \<lparr>SQLiteColumn_Name = ''age'', SQLiteColumn_DataType = Some IntData,
               SQLiteColumn_DefaultValue = ''18'', SQLiteColumn_IsPrimaryKey = False,
               SQLiteColumn_IsNullable = True\<rparr>]\<rparr>"

definition bq_users :: BQTable where
  "bq_users =
     \<lparr>BQTable_Name = Some \<lparr>Idents = [''proj'', ''ds'', ''users'']\<rparr>,
      BQTable_Description = '''',
      BQTable_Schema =
        [Some \<lparr>BQColumn_Name = ''id'', BQColumn_DataType = Some IntData,
               BQColumn_Description = '''', BQColumn_Mode = ''required''\<rparr>]\<rparr>"

section \<open>The priority table\<close>

text \<open>
  C5. The priority and the destructiveness of every kind of change are those of the
  fixed table: \<^verbatim>\<open>DropConstraint\<close> 5 for a foreign key and 10 otherwise, not
  destructive; \<^verbatim>\<open>DropColumn\<close> 20, destructive; \<^verbatim>\<open>DropTable\<close> 30, destructive;
  \<^verbatim>\<open>AddTable\<close> 40, \<^verbatim>\<open>AddColumn\<close> 50, \<^verbatim>\<open>AddConstraint\<close> 60, not destructive;
  \<^verbatim>\<open>AlterColumn\<close> 70, always destructive; \<^verbatim>\<open>AlterTableOptions\<close> 70, not
  destructive.
\<close>

theorem priority_table:
  "Priority (DropConstraint tn cn True) = 5 \<and> \<not> IsDestructive (DropConstraint tn cn True)
   \<and> Priority (DropConstraint tn cn False) = 10 \<and> \<not> IsDestructive (DropConstraint tn cn False)
   \<and> Priority (DropColumn tn col) = 20 \<and> IsDestructive (DropColumn tn col)
   \<and> Priority (DropTable tn) = 30 \<and> IsDestructive (DropTable tn)
   \<and> Priority (AddTable t) = 40 \<and> \<not> IsDestructive (AddTable t)
   \<and> Priority (AddColumn tn c) = 50 \<and> \<not> IsDestructive (AddColumn tn c)
   \<and> Priority (AddConstraint tn con) = 60 \<and> \<not> IsDestructive (AddConstraint tn con)
   \<and> Priority (AlterColumn tn oldc newc) = 70 \<and> IsDestructive (AlterColumn tn oldc newc)
   \<and> Priority (AlterTableOptions tn oo no oc nc) = 70
   \<and> \<not> IsDestructive (AlterTableOptions tn oo no oc nc)"
  by simp

section \<open>SortChanges sorts and permutes\<close>

lemma length_swap: "length (swap i j xs) = length xs"
  by (simp add: swap_def)

lemma mset_swap_eq: "i < length xs \<Longrightarrow> j < length xs \<Longrightarrow> mset (swap i j xs) = mset xs"
  unfolding swap_def using mset_swap[of j xs i] by simp

lemma length_SortChanges_step: "length (SortChanges_step i j xs) = length xs"
  by (simp add: SortChanges_step_def length_swap)

lemma mset_SortChanges_step:
  "i < length xs \<Longrightarrow> j < length xs \<Longrightarrow> mset (SortChanges_step i j xs) = mset xs"
  by (simp add: SortChanges_step_def mset_swap_eq)

lemma step_prefix_le:
  assumes "prefix_le i xs" "i < j" "j < length xs"
  shows "prefix_le i (SortChanges_step i j xs)"
  using assms unfolding prefix_le_def SortChanges_step_def swap_def
  by (auto simp: nth_list_update)

lemma step_head_le:
  assumes "head_le i j xs" "i < j" "j < length xs"
  shows "head_le i (Suc j) (SortChanges_step i j xs)"
  using assms unfolding head_le_def SortChanges_step_def swap_def
  by (auto simp: nth_list_update less_Suc_eq)

lemma inner_upto:
  assumes "prefix_le i xs" "m \<le> length xs"
  shows "let ys = fold (SortChanges_step i) [Suc i ..< m] xs in
         length ys = length xs \<and> mset ys = mset xs \<and> prefix_le i ys \<and> head_le i m ys"
  using assms(2)
proof (induction m)
  case 0
  then show ?case using assms(1) by (simp add: head_le_def)
next
  case (Suc m)
  show ?case
  proof (cases "Suc i \<le> m")
    case False
    then show ?thesis using assms(1) by (auto simp: head_le_def Let_def)
  next
    case True
    define ys where "ys = fold (SortChanges_step i) [Suc i ..< m] xs"
    from Suc have ih: "length ys = length xs" "mset ys = mset xs" "prefix_le i ys" "head_le i m ys"
      by (simp_all add: ys_def Let_def)
    have m: "i < m" "m < length ys" using True Suc.prems ih(1) by auto
    have eq: "fold (SortChanges_step i) [Suc i ..< Suc m] xs = SortChanges_step i m ys"
      using True by (simp add: ys_def)
    show ?thesis
      unfolding Let_def eq
      using ih m step_prefix_le[OF ih(3) m] step_head_le[OF ih(4) m]
      by (simp add: length_SortChanges_step mset_SortChanges_step)
  qed
qed

lemma inner_inv:
  assumes "prefix_le i xs" "i < length xs"
  shows "length (SortChanges_inner i xs) = length xs"
    and "mset (SortChanges_inner i xs) = mset xs"
    and "prefix_le (Suc i) (SortChanges_inner i xs)"
proof -
  let ?ys = "SortChanges_inner i xs"
  have *: "length ?ys = length xs \<and> mset ?ys = mset xs \<and> prefix_le i ?ys \<and> head_le i (length xs) ?ys"
    using inner_upto[OF assms(1), of "length xs"] by (simp add: SortChanges_inner_def Let_def)
  then show "length ?ys = length xs" "mset ?ys = mset xs" by simp_all
  from * show "prefix_le (Suc i) ?ys"
    unfolding prefix_le_def head_le_def by (auto simp: less_Suc_eq)
qed

lemma outer_upto:
  assumes "k \<le> length xs"
  shows "let ys = fold SortChanges_inner [0 ..< k] xs in
         length ys = length xs \<and> mset ys = mset xs \<and> prefix_le k ys"
  using assms
proof (induction k)
  case 0
  then show ?case by (simp add: prefix_le_def)
next
  case (Suc k)
  define ys where "ys = fold SortChanges_inner [0 ..< k] xs"
  from Suc have ih: "length ys = length xs" "mset ys = mset xs" "prefix_le k ys"
    by (simp_all add: ys_def Let_def)
  have k: "k < length ys" using Suc.prems ih(1) by simp
  have eq: "fold SortChanges_inner [0 ..< Suc k] xs = SortChanges_inner k ys"
    by (simp add: ys_def)
  show ?case unfolding Let_def eq using inner_inv[OF ih(3) k] ih by simp
qed

lemma length_SortChanges: "length (SortChanges xs) = length xs"
  using outer_upto[of "length xs" xs] by (simp add: SortChanges_def Let_def)

lemma mset_SortChanges: "mset (SortChanges xs) = mset xs"
  using outer_upto[of "length xs" xs] by (simp add: SortChanges_def Let_def)

lemma sorted_SortChanges: "sorted (map Priority (SortChanges xs))"
proof -
  have "prefix_le (length xs) (SortChanges xs)"
    using outer_upto[of "length xs" xs] by (simp add: SortChanges_def Let_def)
  then show ?thesis
    unfolding prefix_le_def sorted_iff_nth_mono_less
    by (auto simp: length_SortChanges)
qed

section \<open>Map loops and the table maps\<close>

lemma range_map_concat:
  "range_map m ks emit changes = changes @ concat (map (emitted m emit) ks)"
  unfolding range_map_def
  by (induction ks arbitrary: changes) (auto simp: emitted_def split: option.splits)

lemma range_map_nothing:
  assumes "\<And>k v. fmlookup m k = Some v \<Longrightarrow> emit k v = []"
  shows "range_map m ks emit changes = changes"
proof -
  have "emitted m emit k = []" for k
    using assms by (auto simp: emitted_def split: option.splits)
  then show ?thesis by (simp add: range_map_concat)
qed

lemma tablesByName_loop_total:
  "None \<notin> set tables \<Longrightarrow> \<exists>m'. tablesByName_loop m tables = Inr m'"
  by (induction m tables rule: tablesByName_loop.induct) auto

lemma tablesByName_loop_Inr:
  "tablesByName_loop m tables = Inr m' \<Longrightarrow> None \<notin> set tables"
  by (induction m tables rule: tablesByName_loop.induct) auto

lemma tablesByName_total: "None \<notin> set tables \<Longrightarrow> \<exists>m. tablesByName tables = Inr m"
  by (simp add: tablesByName_def tablesByName_loop_total)

lemma tablesByName_Inr: "tablesByName tables = Inr m \<Longrightarrow> None \<notin> set tables"
  unfolding tablesByName_def by (rule tablesByName_loop_Inr)

lemma DiffDatabase_Inr_iff:
  "(\<exists>changes. DiffDatabase ord current desired = Inr changes)
   \<longleftrightarrow> None \<notin> set (GetTables current) \<and> None \<notin> set (GetTables desired)"
proof (cases "tablesByName (GetTables current)")
  case (Inl e)
  then show ?thesis
    using tablesByName_total[of "GetTables current"] by (auto simp: DiffDatabase_def)
next
  case c: (Inr cm)
  show ?thesis
  proof (cases "tablesByName (GetTables desired)")
    case (Inl e)
    then show ?thesis
      using c tablesByName_total[of "GetTables desired"] by (auto simp: DiffDatabase_def)
  next
    case (Inr dm)
    then show ?thesis
      using c tablesByName_Inr by (auto simp: DiffDatabase_def)
  qed
qed

lemma DiffDatabase_Inr_sorted:
  "DiffDatabase ord current desired = Inr changes \<Longrightarrow> sorted (map Priority changes)"
  unfolding DiffDatabase_def by (auto split: sum.splits simp: sorted_SortChanges)

text \<open>
  C3. The list that \<^verbatim>\<open>DiffDatabase\<close> returns is sorted ascending by the priority
  of its changes, whatever the two snapshots and whatever the order in which the map
  loops ran; and it does return a list whenever no entry of either table list is
  \<^verbatim>\<open>nil\<close>.
\<close>

theorem DiffDatabase_sorted:
  "(None \<notin> set (GetTables current) \<and> None \<notin> set (GetTables desired)
      \<longrightarrow> (\<exists>changes. DiffDatabase ord current desired = Inr changes))
   \<and> (\<forall>changes. DiffDatabase ord current desired = Inr changes
         \<longrightarrow> sorted (map Priority changes))"
  using DiffDatabase_Inr_iff[of ord current desired] DiffDatabase_Inr_sorted[of ord current desired]
  by blast

lemma mapsEqual_refl: "mapsEqual a a"
  by (auto simp: mapsEqual_def)

lemma columnsEqual_refl: "columnsEqual c c"
  by (simp add: columnsEqual_def proto_Equal_def)

lemma diffColumns_same: "diffColumns ord n cols cols = []"
  unfolding diffColumns_def Let_def
  by (simp add: range_map_nothing columnsEqual_refl)

lemma diffConstraints_same: "diffConstraints ord n cons cons = []"
  unfolding diffConstraints_def Let_def
  by (simp add: range_map_nothing)

lemma diffTable_same: "diffTable ord t t = []"
  unfolding diffTable_def Let_def
  by (simp add: mapsEqual_refl diffColumns_same diffConstraints_same)

lemma diffTables_same: "diffTables ord m m = []"
  unfolding diffTables_def Let_def
  by (simp add: range_map_nothing diffTable_same)

lemma SortChanges_Nil: "SortChanges [] = []"
  by (simp add: SortChanges_def)

text \<open>
  C1. Comparing a snapshot with itself gives the empty list of changes: for every
  snapshot \<open>X\<close> whose table list has no \<^verbatim>\<open>nil\<close> entry (the \<^verbatim>\<open>nil\<close> database
  included), and in whatever order the map loops run, \<open>DiffDatabase X X\<close> returns \<open>[]\<close>.
\<close>

theorem DiffDatabase_same:
  "None \<notin> set (GetTables X) \<Longrightarrow> DiffDatabase ord X X = Inr []"
  using tablesByName_total[of "GetTables X"]
  by (auto simp: DiffDatabase_def diffTables_same SortChanges_Nil)

section \<open>Runs on the example snapshots\<close>

lemmas example_defs = example_column_def example_table_def example_database_def
  example_foreign_key_def no_table_order_def

lemmas diff_defs = DiffDatabase_def GetTables_def tablesByName_def
  diffTables_def range_map_def dropTableChanges_def diffTable_def diffColumns_def
  diffConstraints_def columnsFromElements_def constraintsFromElements_def
  columnsEqual_def proto_Equal_def mapsEqual_def

lemmas sort_defs = SortChanges_def SortChanges_inner_def SortChanges_step_def swap_def

lemmas order_defs = valid_order_def map_order_ok_def table_order_ok_def range_order_def
  fmpred_iff

lemma drop_two_run:
  "DiffDatabase drop_two_order drop_two_current (example_database []) =
     Inr [DropConstraint (Some \<lparr>Idents = [''shop'', ''orders'']\<rparr>) ''fk_user'' True,
          DropConstraint (Some \<lparr>Idents = [''shop'', ''items'']\<rparr>) ''fk_order'' True,
          DropTable (Some \<lparr>Idents = [''shop'', ''orders'']\<rparr>),
          DropTable (Some \<lparr>Idents = [''shop'', ''items'']\<rparr>)]"
  by (simp add: drop_two_order_def drop_two_current_def example_defs diff_defs sort_defs
      tableName_def)

theorem DiffDatabase_sorted_witness:
  "None \<notin> set (GetTables drop_two_current)
   \<and> None \<notin> set (GetTables (example_database []))
   \<and> DiffDatabase drop_two_order drop_two_current (example_database []) =
       Inr [DropConstraint (Some \<lparr>Idents = [''shop'', ''orders'']\<rparr>) ''fk_user'' True,
            DropConstraint (Some \<lparr>Idents = [''shop'', ''items'']\<rparr>) ''fk_order'' True,
            DropTable (Some \<lparr>Idents = [''shop'', ''orders'']\<rparr>),
            DropTable (Some \<lparr>Idents = [''shop'', ''items'']\<rparr>)]
   \<and> sorted (map Priority
       [DropConstraint (Some \<lparr>Idents = [''shop'', ''orders'']\<rparr>) ''fk_user'' True,
        DropConstraint (Some \<lparr>Idents = [''shop'', ''items'']\<rparr>) ''fk_order'' True,
        DropTable (Some \<lparr>Idents = [''shop'', ''orders'']\<rparr>),
        DropTable (Some \<lparr>Idents = [''shop'', ''items'']\<rparr>)])"
proof -
  have nonnil: "None \<notin> set (GetTables drop_two_current)"
    "None \<notin> set (GetTables (example_database []))"
    by (simp_all add: drop_two_current_def example_database_def GetTables_def)
  from DiffDatabase_sorted[of drop_two_current "example_database []" drop_two_order]
  have "sorted (map Priority
       [DropConstraint (Some \<lparr>Idents = [''shop'', ''orders'']\<rparr>) ''fk_user'' True,
        DropConstraint (Some \<lparr>Idents = [''shop'', ''items'']\<rparr>) ''fk_order'' True,
        DropTable (Some \<lparr>Idents = [''shop'', ''orders'']\<rparr>),
        DropTable (Some \<lparr>Idents = [''shop'', ''items'']\<rparr>)])"
    using drop_two_run by blast
  with nonnil drop_two_run show ?thesis by blast
qed

theorem DiffDatabase_same_witness:
  "None \<notin> set (GetTables users_id)
   \<and> valid_order users_id_order users_id users_id
   \<and> DiffDatabase users_id_order users_id users_id = Inr []"
proof -
  have nonnil: "None \<notin> set (GetTables users_id)"
    by (simp add: users_id_def example_database_def GetTables_def)
  have "valid_order users_id_order users_id users_id"
    by (auto simp: order_defs users_id_order_def users_id_def example_defs GetTables_def
        tablesByName_def tableName_def columnsFromElements_def constraintsFromElements_def
        split: if_splits)
  with nonnil DiffDatabase_same[OF nonnil, of users_id_order] show ?thesis by blast
qed

section \<open>What does not depend on the order of the map loops\<close>

lemma mset_range_map:
  "mset (range_map m ks emit changes) =
     mset changes + (\<Sum>k\<in>#mset ks. mset (emitted m emit k))"
proof -
  have "(\<Sum>xs\<leftarrow>map (emitted m emit) ks. mset xs) = (\<Sum>k\<in>#mset ks. mset (emitted m emit k))"
    by (induction ks) auto
  then show ?thesis by (simp add: range_map_concat mset_concat)
qed

lemma range_order_mset:
  "range_order m ks1 \<Longrightarrow> range_order m ks2 \<Longrightarrow> mset ks1 = mset ks2"
  unfolding range_order_def using set_eq_iff_mset_eq_distinct[of ks1 ks2] by simp

lemma mset_range_map_order:
  assumes "range_order m ks1" "range_order m ks2"
    and "\<And>k v. fmlookup m k = Some v \<Longrightarrow> mset (emit1 k v) = mset (emit2 k v)"
  shows "mset (range_map m ks1 emit1 []) = mset (range_map m ks2 emit2 [])"
proof -
  have "mset (emitted m emit1 k) = mset (emitted m emit2 k)" for k
    using assms(3) by (auto simp: emitted_def split: option.splits)
  then show ?thesis
    using range_order_mset[OF assms(1,2)] by (simp add: mset_range_map)
qed

lemma mset_range_map_same:
  assumes "range_order m ks1" "range_order m ks2"
  shows "mset (range_map m ks1 emit []) = mset (range_map m ks2 emit [])"
  by (rule mset_range_map_order[OF assms]) simp

lemma range_map_acc:
  "range_map m ks emit changes = changes @ range_map m ks emit []"
  by (simp add: range_map_concat)

lemma diffColumns_parts:
  "diffColumns ord n c d =
     range_map c (dropColumnOrder ord)
       (\<lambda>name currCol. if fmlookup d name = None then [DropColumn n name] else []) []
     @ range_map d (addColumnOrder ord)
       (\<lambda>name desCol. if fmlookup c name = None then [AddColumn n desCol] else []) []
     @ range_map d (alterColumnOrder ord)
       (\<lambda>name desCol. case fmlookup c name of None \<Rightarrow> []
          | Some currCol \<Rightarrow> if \<not> columnsEqual currCol desCol
                           then [AlterColumn n currCol desCol] else []) []"
  unfolding diffColumns_def Let_def by (simp add: range_map_concat)

lemma diffConstraints_parts:
  "diffConstraints ord n c d =
     range_map c (dropConstraintOrder ord)
       (\<lambda>name currCon. if fmlookup d name = None
          then [DropConstraint n name (GetReferenceItem (TableConstraint_Spec currCon) \<noteq> None)]
          else []) []
     @ range_map d (addConstraintOrder ord)
       (\<lambda>name desCon. if fmlookup c name = None then [AddConstraint n desCon] else []) []"
  unfolding diffConstraints_def Let_def by (simp add: range_map_concat)

lemma diffTables_parts:
  "diffTables ord cm dm =
     range_map cm (dropTableOrder ord)
       (\<lambda>name currTable. if fmlookup dm name = None then dropTableChanges currTable else []) []
     @ range_map dm (addTableOrder ord)
       (\<lambda>name desTable. if fmlookup cm name = None then [AddTable desTable] else []) []
     @ range_map dm (diffTableOrder ord)
       (\<lambda>name desTable. case fmlookup cm name of None \<Rightarrow> []
          | Some currTable \<Rightarrow> diffTable (tableOrder ord name) currTable desTable) []"
  unfolding diffTables_def Let_def by (simp add: range_map_concat)

lemma mset_diffColumns_order:
  assumes "range_order c (dropColumnOrder o1)" "range_order c (dropColumnOrder o2)"
    "range_order d (addColumnOrder o1)" "range_order d (addColumnOrder o2)"
    "range_order d (alterColumnOrder o1)" "range_order d (alterColumnOrder o2)"
  shows "mset (diffColumns o1 n c d) = mset (diffColumns o2 n c d)"
  unfolding diffColumns_parts mset_append
  by (simp add: mset_range_map_same[OF assms(1,2)] mset_range_map_same[OF assms(3,4)]
      mset_range_map_same[OF assms(5,6)])

lemma mset_diffConstraints_order:
  assumes "range_order c (dropConstraintOrder o1)" "range_order c (dropConstraintOrder o2)"
    "range_order d (addConstraintOrder o1)" "range_order d (addConstraintOrder o2)"
  shows "mset (diffConstraints o1 n c d) = mset (diffConstraints o2 n c d)"
  unfolding diffConstraints_parts mset_append
  by (simp add: mset_range_map_same[OF assms(1,2)] mset_range_map_same[OF assms(3,4)])

lemma mset_diffTable_order:
  assumes "table_order_ok o1 c d" "table_order_ok o2 c d"
  shows "mset (diffTable o1 c d) = mset (diffTable o2 c d)"
proof -
  let ?cc = "columnsFromElements (MetaTable_Elements c)"
  let ?dc = "columnsFromElements (MetaTable_Elements d)"
  let ?ck = "constraintsFromElements (MetaTable_Elements c)"
  let ?dk = "constraintsFromElements (MetaTable_Elements d)"
  have cols: "mset (diffColumns o1 (MetaTable_Name d) ?cc ?dc)
            = mset (diffColumns o2 (MetaTable_Name d) ?cc ?dc)"
    using assms by (intro mset_diffColumns_order) (simp_all add: table_order_ok_def)
  have cons: "mset (diffConstraints o1 (MetaTable_Name d) ?ck ?dk)
            = mset (diffConstraints o2 (MetaTable_Name d) ?ck ?dk)"
    using assms by (intro mset_diffConstraints_order) (simp_all add: table_order_ok_def)
  show ?thesis
    unfolding diffTable_def Let_def by (simp add: cols cons)
qed

lemma map_order_ok_table:
  "map_order_ok ord cm dm \<Longrightarrow> fmlookup cm k = Some c \<Longrightarrow> fmlookup dm k = Some d
     \<Longrightarrow> table_order_ok (tableOrder ord k) c d"
  unfolding map_order_ok_def fmpred_iff by fastforce

lemma mset_diffTables_order:
  assumes "map_order_ok o1 cm dm" "map_order_ok o2 cm dm"
  shows "mset (diffTables o1 cm dm) = mset (diffTables o2 cm dm)"
proof -
  have 1: "range_order cm (dropTableOrder o1)" "range_order cm (dropTableOrder o2)"
    and 2: "range_order dm (addTableOrder o1)" "range_order dm (addTableOrder o2)"
    and 3: "range_order dm (diffTableOrder o1)" "range_order dm (diffTableOrder o2)"
    using assms by (simp_all add: map_order_ok_def)
  have t: "mset (case fmlookup cm k of None \<Rightarrow> []
              | Some currTable \<Rightarrow> diffTable (tableOrder o1 k) currTable v)
         = mset (case fmlookup cm k of None \<Rightarrow> []
              | Some currTable \<Rightarrow> diffTable (tableOrder o2 k) currTable v)"
    if "fmlookup dm k = Some v" for k v
    using that mset_diffTable_order[OF map_order_ok_table[OF assms(1)] map_order_ok_table[OF assms(2)]]
    by (auto split: option.splits)
  have e3: "mset (range_map dm (diffTableOrder o1)
         (\<lambda>name desTable. case fmlookup cm name of None \<Rightarrow> []
            | Some currTable \<Rightarrow> diffTable (tableOrder o1 name) currTable desTable) [])
      = mset (range_map dm (diffTableOrder o2)
         (\<lambda>name desTable. case fmlookup cm name of None \<Rightarrow> []
            | Some currTable \<Rightarrow> diffTable (tableOrder o2 name) currTable desTable) [])"
    by (rule mset_range_map_order[OF 3]) (rule t)
  show ?thesis
    unfolding diffTables_parts mset_append
    by (simp only: e3 mset_range_map_same[OF 1] mset_range_map_same[OF 2])
qed

lemma sorted_mset_unique:
  fixes xs ys :: "int list"
  assumes "sorted xs" "sorted ys" "mset xs = mset ys"
  shows "xs = ys"
proof -
  have "sort xs = ys" using assms(2,3) by (intro properties_for_sort) simp_all
  moreover have "sort xs = xs" using assms(1) by (rule sorted_sort_id)
  ultimately show ?thesis by simp
qed

text \<open>
  C2, as amended. Two runs of \<^verbatim>\<open>DiffDatabase\<close> on the same two snapshots, whatever
  the orders in which their map loops visit the keys, both panic or both return; the two
  lists they return hold the same changes, each as many times, and the same priority at
  every position. Only the relative order of changes of equal priority can differ from
  one run to the other.
\<close>

theorem DiffDatabase_order_independent:
  assumes "valid_order ord1 current desired" "valid_order ord2 current desired"
  shows "(\<forall>e. DiffDatabase ord1 current desired = Inl e
              \<longleftrightarrow> DiffDatabase ord2 current desired = Inl e)
    \<and> (\<forall>changes1 changes2.
          DiffDatabase ord1 current desired = Inr changes1
          \<and> DiffDatabase ord2 current desired = Inr changes2
          \<longrightarrow> mset changes1 = mset changes2
              \<and> map Priority changes1 = map Priority changes2)"
proof (cases "tablesByName (GetTables current)")
  case (Inl e)
  then show ?thesis by (simp add: DiffDatabase_def)
next
  case c: (Inr cm)
  show ?thesis
  proof (cases "tablesByName (GetTables desired)")
    case (Inl e)
    then show ?thesis using c by (simp add: DiffDatabase_def)
  next
    case d: (Inr dm)
    have ok: "map_order_ok ord1 cm dm" "map_order_ok ord2 cm dm"
      using assms c d by (simp_all add: valid_order_def)
    let ?r1 = "SortChanges (diffTables ord1 cm dm)"
    let ?r2 = "SortChanges (diffTables ord2 cm dm)"
    have m: "mset ?r1 = mset ?r2"
      by (simp add: mset_SortChanges mset_diffTables_order[OF ok])
    then have "mset (map Priority ?r1) = mset (map Priority ?r2)" by simp
    then have "map Priority ?r1 = map Priority ?r2"
      using sorted_mset_unique sorted_SortChanges by blast
    with m show ?thesis using c d by (simp add: DiffDatabase_def)
  qed
qed

lemma accounts_first_valid: "valid_order accounts_first (example_database []) add_two_desired"
  by (auto simp: order_defs accounts_first_def add_two_desired_def example_defs GetTables_def
      tablesByName_def tableName_def columnsFromElements_def constraintsFromElements_def
      split: if_splits)

lemma users_first_valid: "valid_order users_first (example_database []) add_two_desired"
  by (auto simp: order_defs users_first_def add_two_desired_def example_defs GetTables_def
      tablesByName_def tableName_def columnsFromElements_def constraintsFromElements_def
      split: if_splits)

lemma example_table_name: "tableName (MetaTable_Name (example_table [n] elems)) = n"
  by (simp add: example_table_def tableName_def)

lemma accounts_first_run:
  "DiffDatabase accounts_first (example_database []) add_two_desired =
     Inr [AddTable (example_table [''accounts''] []), AddTable (example_table [''users''] [])]"
  by (simp add: accounts_first_def add_two_desired_def example_database_def diff_defs sort_defs
      example_table_name)

lemma users_first_run:
  "DiffDatabase users_first (example_database []) add_two_desired =
     Inr [AddTable (example_table [''users''] []), AddTable (example_table [''accounts''] [])]"
  by (simp add: users_first_def add_two_desired_def example_database_def diff_defs sort_defs
      example_table_name)

theorem DiffDatabase_order_independent_witness:
  "valid_order accounts_first (example_database []) add_two_desired
   \<and> valid_order users_first (example_database []) add_two_desired
   \<and> DiffDatabase accounts_first (example_database []) add_two_desired =
       Inr [AddTable (example_table [''accounts''] []), AddTable (example_table [''users''] [])]
   \<and> DiffDatabase users_first (example_database []) add_two_desired =
       Inr [AddTable (example_table [''users''] []), AddTable (example_table [''accounts''] [])]
   \<and> mset [AddTable (example_table [''accounts''] []), AddTable (example_table [''users''] [])]
     = mset [AddTable (example_table [''users''] []), AddTable (example_table [''accounts''] [])]
   \<and> map Priority
       [AddTable (example_table [''accounts''] []), AddTable (example_table [''users''] [])]
     = map Priority
       [AddTable (example_table [''users''] []), AddTable (example_table [''accounts''] [])]"
  using DiffDatabase_order_independent[OF accounts_first_valid users_first_valid]
    accounts_first_valid users_first_valid accounts_first_run users_first_run
  by blast

text \<open>
  C2, as stated, fails: the two runs below are both runs that Go can make on the same
  input, and they return the two \<^verbatim>\<open>AddTable\<close> changes, which share the priority 40,
  in different orders.
\<close>

theorem DiffDatabase_runs_differ:
  "valid_order accounts_first (example_database []) add_two_desired
   \<and> valid_order users_first (example_database []) add_two_desired
   \<and> DiffDatabase accounts_first (example_database []) add_two_desired =
       Inr [AddTable (example_table [''accounts''] []), AddTable (example_table [''users''] [])]
   \<and> DiffDatabase users_first (example_database []) add_two_desired =
       Inr [AddTable (example_table [''users''] []), AddTable (example_table [''accounts''] [])]
   \<and> DiffDatabase accounts_first (example_database []) add_two_desired
     \<noteq> DiffDatabase users_first (example_database []) add_two_desired"
proof -
  have "example_table [''accounts''] [] \<noteq> example_table [''users''] []"
    by (simp add: example_table_def)
  then show ?thesis
    using accounts_first_valid users_first_valid
    by (simp add: accounts_first_run users_first_run)
qed

section \<open>The changes of one column and of one constraint\<close>

lemma filter_concat_one:
  assumes "distinct ks" "k0 \<in> set ks" "\<And>k. k \<in> set ks \<Longrightarrow> k \<noteq> k0 \<Longrightarrow> filter P (f k) = []"
  shows "filter P (concat (map f ks)) = filter P (f k0)"
  using assms
proof (induction ks)
  case Nil
  then show ?case by simp
next
  case (Cons k ks)
  show ?case
  proof (cases "k = k0")
    case True
    then have "k0 \<notin> set ks" using Cons.prems(1) by simp
    then have "filter P (concat (map f ks)) = []"
      using Cons.prems(3) by (auto simp: filter_concat filter_empty_conv)
    then show ?thesis using True by simp
  next
    case False
    then have "filter P (f k) = []" using Cons.prems(3) by simp
    moreover have "filter P (concat (map f ks)) = filter P (f k0)"
      using Cons False by auto
    ultimately show ?thesis by simp
  qed
qed

lemma filter_range_map_one:
  assumes "range_order m ks" "fmlookup m k0 = Some v0"
    and "\<And>k v. fmlookup m k = Some v \<Longrightarrow> k \<noteq> k0 \<Longrightarrow> filter P (emit k v) = []"
  shows "filter P (range_map m ks emit []) = filter P (emit k0 v0)"
proof -
  have d: "distinct ks" and k0: "k0 \<in> set ks"
    using assms(1,2) by (auto simp: range_order_def fmdom'I)
  have "filter P (emitted m emit k) = []" if "k \<noteq> k0" for k
    using that assms(3) by (auto simp: emitted_def split: option.splits)
  then have "filter P (concat (map (emitted m emit) ks)) = filter P (emitted m emit k0)"
    using d k0 by (intro filter_concat_one) auto
  then show ?thesis using assms(2) by (simp add: range_map_concat emitted_def)
qed

lemma filter_range_map_none:
  assumes "\<And>k v. fmlookup m k = Some v \<Longrightarrow> filter P (emit k v) = []"
  shows "filter P (range_map m ks emit []) = []"
proof -
  have "filter P (emitted m emit k) = []" for k
    using assms by (auto simp: emitted_def split: option.splits)
  then show ?thesis by (simp add: range_map_concat filter_concat)
qed

lemma set_range_map:
  "ch \<in> set (range_map m ks emit []) \<Longrightarrow> \<exists>k v. fmlookup m k = Some v \<and> ch \<in> set (emit k v)"
proof -
  assume "ch \<in> set (range_map m ks emit [])"
  then obtain k where "ch \<in> set (emitted m emit k)"
    by (auto simp: range_map_concat)
  then show ?thesis
    by (cases "fmlookup m k") (auto simp: emitted_def)
qed

lemma tablesByName_loop_key:
  assumes "tablesByName_loop m tables = Inr m'"
    and "\<And>k t. fmlookup m k = Some t \<Longrightarrow> tableName (MetaTable_Name t) = k"
    and "fmlookup m' k = Some t"
  shows "tableName (MetaTable_Name t) = k"
  using assms
proof (induction m tables rule: tablesByName_loop.induct)
  case (3 m t' tables)
  show ?case
  proof (rule "3.IH")
    show "tablesByName_loop (fmupd (tableName (MetaTable_Name t')) t' m) tables = Inr m'"
      using "3.prems"(1) by simp
    show "fmlookup m' k = Some t" by fact
    show "tableName (MetaTable_Name ta) = ka"
      if "fmlookup (fmupd (tableName (MetaTable_Name t')) t' m) ka = Some ta" for ka ta
      using that "3.prems"(2) by (auto split: if_splits)
  qed
qed simp_all

lemma tablesByName_key:
  "tablesByName tables = Inr m \<Longrightarrow> fmlookup m k = Some t \<Longrightarrow> tableName (MetaTable_Name t) = k"
  unfolding tablesByName_def by (erule tablesByName_loop_key) simp_all

lemma columnsFromElements_key_aux:
  assumes "\<And>k c. fmlookup m k = Some c \<Longrightarrow> ColumnDef_Name c = k"
    and "fmlookup (fold (\<lambda>elem m. case GetColumnDefElement elem of None \<Rightarrow> m
                     | Some col \<Rightarrow> fmupd (ColumnDef_Name col) col m) elems m) k = Some c"
  shows "ColumnDef_Name c = k"
  using assms
proof (induction elems arbitrary: m)
  case Nil
  then show ?case by simp
next
  case (Cons e es)
  show ?case
  proof (rule Cons.IH[OF _ Cons.prems(2)[simplified]])
    fix ka ca
    assume "fmlookup (case GetColumnDefElement e of None \<Rightarrow> m
              | Some col \<Rightarrow> fmupd (ColumnDef_Name col) col m) ka = Some ca"
    then show "ColumnDef_Name ca = ka"
      using Cons.prems(1) by (auto split: option.splits if_splits)
  qed
qed

lemma columnsFromElements_key:
  "fmlookup (columnsFromElements elems) k = Some c \<Longrightarrow> ColumnDef_Name c = k"
  unfolding columnsFromElements_def by (erule columnsFromElements_key_aux[rotated]) simp

lemma constraintsFromElements_key_aux:
  assumes "\<And>k c. fmlookup m k = Some c \<Longrightarrow> TableConstraint_Name c = k \<and> k \<noteq> ''''"
    and "fmlookup (fold (\<lambda>elem m. case GetTableConstraintElement elem of None \<Rightarrow> m
                     | Some tc \<Rightarrow> if TableConstraint_Name tc \<noteq> ''''
                                 then fmupd (TableConstraint_Name tc) tc m else m) elems m) k
           = Some c"
  shows "TableConstraint_Name c = k \<and> k \<noteq> ''''"
  using assms
proof (induction elems arbitrary: m)
  case Nil
  then show ?case by simp
next
  case (Cons e es)
  show ?case
  proof (rule Cons.IH[OF _ Cons.prems(2)[simplified]])
    fix ka ca
    assume "fmlookup (case GetTableConstraintElement e of None \<Rightarrow> m
              | Some tc \<Rightarrow> if TableConstraint_Name tc \<noteq> ''''
                          then fmupd (TableConstraint_Name tc) tc m else m) ka = Some ca"
    then show "TableConstraint_Name ca = ka \<and> ka \<noteq> ''''"
      using Cons.prems(1) by (auto split: option.splits if_splits)
  qed
qed

lemma constraintsFromElements_key:
  "fmlookup (constraintsFromElements elems) k = Some c
     \<Longrightarrow> TableConstraint_Name c = k \<and> k \<noteq> ''''"
  unfolding constraintsFromElements_def
  by (erule constraintsFromElements_key_aux[rotated]) simp

lemma fold_append_concat:
  "fold (\<lambda>x acc. acc @ f x) xs acc = acc @ concat (map f xs)"
  by (induction xs arbitrary: acc) auto

lemma dropTableChanges_concat:
  "dropTableChanges t =
     concat (map (\<lambda>elem. case GetTableConstraintElement elem of
                            None \<Rightarrow> []
                          | Some tc \<Rightarrow>
                              [DropConstraint (MetaTable_Name t) (TableConstraint_Name tc)
                                 (GetReferenceItem (TableConstraint_Spec tc) \<noteq> None)])
                 (MetaTable_Elements t))
     @ [DropTable (MetaTable_Name t)]"
proof -
  have "(\<lambda>elem changes. case GetTableConstraintElement elem of
             None \<Rightarrow> changes
           | Some tc \<Rightarrow> changes @ [DropConstraint (MetaTable_Name t) (TableConstraint_Name tc)
                              (GetReferenceItem (TableConstraint_Spec tc) \<noteq> None)])
      = (\<lambda>elem changes. changes @ (case GetTableConstraintElement elem of
             None \<Rightarrow> []
           | Some tc \<Rightarrow> [DropConstraint (MetaTable_Name t) (TableConstraint_Name tc)
                              (GetReferenceItem (TableConstraint_Spec tc) \<noteq> None)]))"
    by (auto simp: fun_eq_iff split: option.splits)
  then show ?thesis
    unfolding dropTableChanges_def by (simp add: fold_append_concat)
qed

lemma dropTableChanges_kind:
  assumes "ch \<in> set (dropTableChanges t)"
  shows "ch = DropTable (MetaTable_Name t) \<or> (\<exists>cn fk. ch = DropConstraint (MetaTable_Name t) cn fk)"
  using assms unfolding dropTableChanges_concat
  by (auto split: option.splits)

lemma diffColumns_kind:
  assumes "ch \<in> set (diffColumns ord tn c d)"
  shows "(\<exists>col. ch = DropColumn tn col) \<or> (\<exists>col. ch = AddColumn tn col)
       \<or> (\<exists>oc nc. ch = AlterColumn tn oc nc)"
  using assms unfolding diffColumns_parts
  by (auto dest!: set_range_map split: if_splits option.splits)

lemma diffConstraints_kind:
  assumes "ch \<in> set (diffConstraints ord tn c d)"
  shows "(\<exists>cn fk. ch = DropConstraint tn cn fk) \<or> (\<exists>con. ch = AddConstraint tn con)"
  using assms unfolding diffConstraints_parts
  by (auto dest!: set_range_map split: if_splits option.splits)

lemma diffTable_parts:
  "diffTable ord c d =
     (if MetaTable_Comment c \<noteq> MetaTable_Comment d
         \<or> \<not> mapsEqual (MetaTable_Options c) (MetaTable_Options d)
      then [AlterTableOptions (MetaTable_Name d) (MetaTable_Options c) (MetaTable_Options d)
              (MetaTable_Comment c) (MetaTable_Comment d)]
      else [])
     @ diffColumns ord (MetaTable_Name d) (columnsFromElements (MetaTable_Elements c))
         (columnsFromElements (MetaTable_Elements d))
     @ diffConstraints ord (MetaTable_Name d) (constraintsFromElements (MetaTable_Elements c))
         (constraintsFromElements (MetaTable_Elements d))"
  unfolding diffTable_def Let_def by simp

lemma change_table_diffTable:
  assumes "ch \<in> set (diffTable ord c d)"
  shows "change_table ch = MetaTable_Name d"
  using assms unfolding diffTable_parts
  by (auto dest: diffColumns_kind diffConstraints_kind split: if_splits)

lemma is_column_change_table: "is_column_change tn col ch \<Longrightarrow> change_table ch = tn"
  by (cases ch) auto

lemma is_constraint_change_table: "is_constraint_change tn con ch \<Longrightarrow> change_table ch = tn"
  by (cases ch) auto

lemma filter_column_diffConstraints:
  "filter (is_column_change tn col) (diffConstraints ord n c d) = []"
  by (auto simp: filter_empty_conv dest!: diffConstraints_kind)

lemma filter_constraint_diffColumns:
  "filter (is_constraint_change tn con) (diffColumns ord n c d) = []"
  by (auto simp: filter_empty_conv dest!: diffColumns_kind)

lemma filter_column_dropTableChanges:
  "filter (is_column_change tn col) (dropTableChanges t) = []"
  by (auto simp: filter_empty_conv dest!: dropTableChanges_kind)

lemma filter_column_diffColumns:
  assumes ord: "range_order c (dropColumnOrder ord)" "range_order d (addColumnOrder ord)"
      "range_order d (alterColumnOrder ord)"
    and ck: "\<And>k v. fmlookup c k = Some v \<Longrightarrow> ColumnDef_Name v = k"
    and dk: "\<And>k v. fmlookup d k = Some v \<Longrightarrow> ColumnDef_Name v = k"
  shows "filter (is_column_change tn col) (diffColumns ord tn c d) =
     (case fmlookup c col of
        None \<Rightarrow> (case fmlookup d col of None \<Rightarrow> [] | Some desCol \<Rightarrow> [AddColumn tn desCol])
      | Some currCol \<Rightarrow>
          (case fmlookup d col of
             None \<Rightarrow> [DropColumn tn col]
           | Some desCol \<Rightarrow> if \<not> columnsEqual currCol desCol
                            then [AlterColumn tn currCol desCol] else []))"
proof -
  let ?P = "is_column_change tn col"
  let ?drop = "\<lambda>name (currCol::ColumnDef). if fmlookup d name = None then [DropColumn tn name] else []"
  let ?add = "\<lambda>name desCol. if fmlookup c name = None then [AddColumn tn desCol] else []"
  let ?alter = "\<lambda>name desCol. case fmlookup c name of None \<Rightarrow> []
          | Some currCol \<Rightarrow> if \<not> columnsEqual currCol desCol
                           then [AlterColumn tn currCol desCol] else []"
  have drop_other: "filter ?P (?drop k v) = []" if "k \<noteq> col" for k v
    using that by auto
  have add_other: "filter ?P (?add k v) = []" if "fmlookup d k = Some v" "k \<noteq> col" for k v
    using that dk by auto
  have alter_other: "filter ?P (?alter k v) = []" if "fmlookup d k = Some v" "k \<noteq> col" for k v
    using that dk ck by (auto split: option.splits)
  have A: "filter ?P (range_map c (dropColumnOrder ord) ?drop []) =
      (case fmlookup c col of None \<Rightarrow> [] | Some currCol \<Rightarrow> filter ?P (?drop col currCol))"
  proof (cases "fmlookup c col")
    case None
    then have "filter ?P (range_map c (dropColumnOrder ord) ?drop []) = []"
      by (intro filter_range_map_none) auto
    with None show ?thesis by simp
  next
    case (Some v)
    have "filter ?P (range_map c (dropColumnOrder ord) ?drop []) = filter ?P (?drop col v)"
      by (rule filter_range_map_one[OF ord(1) Some]) (rule drop_other)
    with Some show ?thesis by simp
  qed
  have B: "filter ?P (range_map d (addColumnOrder ord) ?add []) =
      (case fmlookup d col of None \<Rightarrow> [] | Some desCol \<Rightarrow> filter ?P (?add col desCol))"
  proof (cases "fmlookup d col")
    case None
    have "filter ?P (range_map d (addColumnOrder ord) ?add []) = []"
    proof (rule filter_range_map_none)
      fix k v assume "fmlookup d k = Some v"
      with None have "k \<noteq> col" by auto
      then show "filter ?P (?add k v) = []" using add_other \<open>fmlookup d k = Some v\<close> by blast
    qed
    with None show ?thesis by simp
  next
    case (Some v)
    have "filter ?P (range_map d (addColumnOrder ord) ?add []) = filter ?P (?add col v)"
      by (rule filter_range_map_one[OF ord(2) Some]) (rule add_other)
    with Some show ?thesis by simp
  qed
  have C: "filter ?P (range_map d (alterColumnOrder ord) ?alter []) =
      (case fmlookup d col of None \<Rightarrow> [] | Some desCol \<Rightarrow> filter ?P (?alter col desCol))"
  proof (cases "fmlookup d col")
    case None
    have "filter ?P (range_map d (alterColumnOrder ord) ?alter []) = []"
    proof (rule filter_range_map_none)
      fix k v assume "fmlookup d k = Some v"
      with None have "k \<noteq> col" by auto
      then show "filter ?P (?alter k v) = []" using alter_other \<open>fmlookup d k = Some v\<close> by blast
    qed
    with None show ?thesis by simp
  next
    case (Some v)
    have "filter ?P (range_map d (alterColumnOrder ord) ?alter []) = filter ?P (?alter col v)"
      by (rule filter_range_map_one[OF ord(3) Some]) (rule alter_other)
    with Some show ?thesis by simp
  qed
  show ?thesis
    unfolding diffColumns_parts filter_append A B C
    using ck dk by (auto split: option.splits)
qed

lemma filter_constraint_diffConstraints:
  assumes ord: "range_order c (dropConstraintOrder ord)" "range_order d (addConstraintOrder ord)"
    and dk: "\<And>k v. fmlookup d k = Some v \<Longrightarrow> TableConstraint_Name v = k"
  shows "filter (is_constraint_change tn con) (diffConstraints ord tn c d) =
     (case fmlookup c con of
        None \<Rightarrow> (case fmlookup d con of None \<Rightarrow> [] | Some desCon \<Rightarrow> [AddConstraint tn desCon])
      | Some currCon \<Rightarrow>
          (case fmlookup d con of
             None \<Rightarrow> [DropConstraint tn con
                        (GetReferenceItem (TableConstraint_Spec currCon) \<noteq> None)]
           | Some desCon \<Rightarrow> []))"
proof -
  let ?P = "is_constraint_change tn con"
  let ?drop = "\<lambda>name currCon. if fmlookup d name = None
          then [DropConstraint tn name (GetReferenceItem (TableConstraint_Spec currCon) \<noteq> None)]
          else []"
  let ?add = "\<lambda>name desCon. if fmlookup c name = None then [AddConstraint tn desCon] else []"
  have drop_other: "filter ?P (?drop k v) = []" if "k \<noteq> con" for k v
    using that by auto
  have add_other: "filter ?P (?add k v) = []" if "fmlookup d k = Some v" "k \<noteq> con" for k v
    using that dk by auto
  have A: "filter ?P (range_map c (dropConstraintOrder ord) ?drop []) =
      (case fmlookup c con of None \<Rightarrow> [] | Some currCon \<Rightarrow> filter ?P (?drop con currCon))"
  proof (cases "fmlookup c con")
    case None
    then have "filter ?P (range_map c (dropConstraintOrder ord) ?drop []) = []"
      by (intro filter_range_map_none) auto
    with None show ?thesis by simp
  next
    case (Some v)
    have "filter ?P (range_map c (dropConstraintOrder ord) ?drop []) = filter ?P (?drop con v)"
      by (rule filter_range_map_one[OF ord(1) Some]) (rule drop_other)
    with Some show ?thesis by simp
  qed
  have B: "filter ?P (range_map d (addConstraintOrder ord) ?add []) =
      (case fmlookup d con of None \<Rightarrow> [] | Some desCon \<Rightarrow> filter ?P (?add con desCon))"
  proof (cases "fmlookup d con")
    case None
    have "filter ?P (range_map d (addConstraintOrder ord) ?add []) = []"
    proof (rule filter_range_map_none)
      fix k v assume "fmlookup d k = Some v"
      with None have "k \<noteq> con" by auto
      then show "filter ?P (?add k v) = []" using add_other \<open>fmlookup d k = Some v\<close> by blast
    qed
    with None show ?thesis by simp
  next
    case (Some v)
    have "filter ?P (range_map d (addConstraintOrder ord) ?add []) = filter ?P (?add con v)"
      by (rule filter_range_map_one[OF ord(2) Some]) (rule add_other)
    with Some show ?thesis by simp
  qed
  show ?thesis
    unfolding diffConstraints_parts filter_append A B
    using dk by (auto split: option.splits)
qed

lemma filter_SortChanges_short:
  assumes "length (filter P xs) \<le> 1"
  shows "filter P (SortChanges xs) = filter P xs"
proof -
  have m: "mset (filter P (SortChanges xs)) = mset (filter P xs)"
    by (simp add: mset_SortChanges)
  show ?thesis
  proof (cases "filter P xs")
    case Nil
    then show ?thesis using m by simp
  next
    case (Cons x ys)
    then have one: "filter P xs = [x]" using assms by simp
    have "mset (filter P (SortChanges xs)) = {#x#}"
      unfolding m one by simp
    then show ?thesis unfolding one by (simp only: mset_single_iff)
  qed
qed

lemma filter_diffTables_table:
  assumes ok: "map_order_ok ord cm dm"
    and ck: "\<And>k t. fmlookup cm k = Some t \<Longrightarrow> tableName (MetaTable_Name t) = k"
    and dk: "\<And>k t. fmlookup dm k = Some t \<Longrightarrow> tableName (MetaTable_Name t) = k"
    and c: "fmlookup cm name = Some c" and d: "fmlookup dm name = Some d"
    and P: "\<And>ch. P ch \<Longrightarrow> change_table ch = MetaTable_Name d"
  shows "filter P (diffTables ord cm dm) = filter P (diffTable (tableOrder ord name) c d)"
proof -
  have other: "\<not> P ch" if "change_table ch = MetaTable_Name t" "tableName (MetaTable_Name t) \<noteq> name"
    for ch t
    using that P[of ch] dk[OF d] by auto
  let ?drop = "\<lambda>name currTable. if fmlookup dm name = None then dropTableChanges currTable else []"
  let ?add = "\<lambda>name desTable. if fmlookup cm name = None then [AddTable desTable] else []"
  let ?diff = "\<lambda>name desTable. case fmlookup cm name of None \<Rightarrow> []
          | Some currTable \<Rightarrow> diffTable (tableOrder ord name) currTable desTable"
  have 1: "filter P (range_map cm (dropTableOrder ord) ?drop []) = []"
  proof (rule filter_range_map_none)
    fix k v assume kv: "fmlookup cm k = Some v"
    show "filter P (?drop k v) = []"
    proof (cases "fmlookup dm k = None")
      case True
      then have "k \<noteq> name" using d by auto
      then have "tableName (MetaTable_Name v) \<noteq> name" using ck[OF kv] by simp
      moreover have "change_table ch = MetaTable_Name v" if "ch \<in> set (dropTableChanges v)" for ch
        using dropTableChanges_kind[OF that] by auto
      ultimately show ?thesis using True other by (auto simp: filter_empty_conv)
    next
      case False
      then show ?thesis by auto
    qed
  qed
  have 2: "filter P (range_map dm (addTableOrder ord) ?add []) = []"
  proof (rule filter_range_map_none)
    fix k v assume kv: "fmlookup dm k = Some v"
    show "filter P (?add k v) = []"
    proof (cases "fmlookup cm k = None")
      case True
      then have "k \<noteq> name" using c by auto
      then have "tableName (MetaTable_Name v) \<noteq> name" using dk[OF kv] by simp
      then have "\<not> P (AddTable v)" using other[of "AddTable v" v] by simp
      then show ?thesis using True by simp
    next
      case False
      then show ?thesis by simp
    qed
  qed
  have 3: "filter P (range_map dm (diffTableOrder ord) ?diff []) = filter P (?diff name d)"
  proof (rule filter_range_map_one[OF _ d])
    show "range_order dm (diffTableOrder ord)" using ok by (simp add: map_order_ok_def)
    fix k v assume kv: "fmlookup dm k = Some v" and ne: "k \<noteq> name"
    have ne': "tableName (MetaTable_Name v) \<noteq> name" using dk[OF kv] ne by simp
    have "\<not> P ch" if "ch \<in> set (diffTable o' c' v)" for ch o' c'
      using other[OF change_table_diffTable[OF that] ne'] .
    then show "filter P (?diff k v) = []"
      by (auto simp: filter_empty_conv split: option.splits)
  qed
  show ?thesis
    unfolding diffTables_parts filter_append 1 2 3 using c by simp
qed

lemma filter_column_diffTable:
  assumes "table_order_ok ord c d"
  shows "filter (is_column_change (MetaTable_Name d) col) (diffTable ord c d) =
     (case fmlookup (columnsFromElements (MetaTable_Elements c)) col of
        None \<Rightarrow> (case fmlookup (columnsFromElements (MetaTable_Elements d)) col of
                   None \<Rightarrow> []
                 | Some desCol \<Rightarrow> [AddColumn (MetaTable_Name d) desCol])
      | Some currCol \<Rightarrow>
          (case fmlookup (columnsFromElements (MetaTable_Elements d)) col of
             None \<Rightarrow> [DropColumn (MetaTable_Name d) col]
           | Some desCol \<Rightarrow> if \<not> columnsEqual currCol desCol
                            then [AlterColumn (MetaTable_Name d) currCol desCol] else []))"
    (is "?lhs = ?rhs")
proof -
  have "filter (is_column_change (MetaTable_Name d) col) (diffTable ord c d) =
        filter (is_column_change (MetaTable_Name d) col)
          (diffColumns ord (MetaTable_Name d) (columnsFromElements (MetaTable_Elements c))
             (columnsFromElements (MetaTable_Elements d)))"
    unfolding diffTable_parts by (simp add: filter_column_diffConstraints)
  also have "\<dots> = ?rhs"
    using assms unfolding table_order_ok_def
    by (intro filter_column_diffColumns) (auto dest: columnsFromElements_key)
  finally show ?thesis by simp
qed

lemma filter_constraint_diffTable:
  assumes "table_order_ok ord c d"
  shows "filter (is_constraint_change (MetaTable_Name d) con) (diffTable ord c d) =
     (case fmlookup (constraintsFromElements (MetaTable_Elements c)) con of
        None \<Rightarrow> (case fmlookup (constraintsFromElements (MetaTable_Elements d)) con of
                   None \<Rightarrow> []
                 | Some desCon \<Rightarrow> [AddConstraint (MetaTable_Name d) desCon])
      | Some currCon \<Rightarrow>
          (case fmlookup (constraintsFromElements (MetaTable_Elements d)) con of
             None \<Rightarrow> [DropConstraint (MetaTable_Name d) con
                        (GetReferenceItem (TableConstraint_Spec currCon) \<noteq> None)]
           | Some desCon \<Rightarrow> []))"
    (is "?lhs = ?rhs")
proof -
  have "filter (is_constraint_change (MetaTable_Name d) con) (diffTable ord c d) =
        filter (is_constraint_change (MetaTable_Name d) con)
          (diffConstraints ord (MetaTable_Name d)
             (constraintsFromElements (MetaTable_Elements c))
             (constraintsFromElements (MetaTable_Elements d)))"
    unfolding diffTable_parts by (simp add: filter_constraint_diffColumns)
  also have "\<dots> = ?rhs"
    using assms unfolding table_order_ok_def
    by (intro filter_constraint_diffConstraints) (auto dest: constraintsFromElements_key)
  finally show ?thesis by simp
qed

lemma columnsEqual_iff:
  "columnsEqual a b \<longleftrightarrow>
     ColumnDef_Name a = ColumnDef_Name b \<and> ColumnDef_Comment a = ColumnDef_Comment b
     \<and> ColumnDef_DataType a = ColumnDef_DataType b \<and> ColumnDef_Default a = ColumnDef_Default b"
  by (simp add: columnsEqual_def proto_Equal_def)

lemma DiffDatabase_filter_table:
  assumes ok: "valid_order ord current desired"
    and cm: "tablesByName (GetTables current) = Inr cm"
    and dm: "tablesByName (GetTables desired) = Inr dm"
    and c: "fmlookup cm name = Some c" and d: "fmlookup dm name = Some d"
    and P: "\<And>ch. P ch \<Longrightarrow> change_table ch = MetaTable_Name d"
    and short: "length (filter P (diffTable (tableOrder ord name) c d)) \<le> 1"
  shows "\<exists>changes. DiffDatabase ord current desired = Inr changes
           \<and> filter P changes = filter P (diffTable (tableOrder ord name) c d)"
proof -
  have mok: "map_order_ok ord cm dm" using ok cm dm by (simp add: valid_order_def)
  have eq: "filter P (diffTables ord cm dm) = filter P (diffTable (tableOrder ord name) c d)"
    by (rule filter_diffTables_table[OF mok tablesByName_key[OF cm] tablesByName_key[OF dm] c d P])
  have "filter P (SortChanges (diffTables ord cm dm)) = filter P (diffTables ord cm dm)"
    by (rule filter_SortChanges_short) (use eq short in simp)
  then show ?thesis using cm dm eq by (simp add: DiffDatabase_def)
qed

text \<open>
  C6. For a table whose simple name is in both snapshots (\<open>currTable\<close> and \<open>desTable\<close>
  are the tables that the two table maps hold under it), and for every column name \<open>col\<close>,
  the changes of the result that concern this column of this table are: exactly one
  \<^verbatim>\<open>DropColumn\<close> when only the current table has the column; exactly one
  \<^verbatim>\<open>AddColumn\<close> (carrying the desired column) when only the desired table has it;
  when both have it, exactly one \<^verbatim>\<open>AlterColumn\<close> if the two definitions differ in
  name, comment, data type or default, and nothing otherwise, whatever their lists of
  constraints and their options are.
\<close>

theorem column_changes_of_common_table:
  assumes "valid_order ord current desired"
    and "tablesByName (GetTables current) = Inr currentTables"
    and "tablesByName (GetTables desired) = Inr desiredTables"
    and "fmlookup currentTables name = Some currTable"
    and "fmlookup desiredTables name = Some desTable"
  shows "\<exists>changes. DiffDatabase ord current desired = Inr changes
     \<and> column_changes (MetaTable_Name desTable) col changes =
       (case fmlookup (columnsFromElements (MetaTable_Elements currTable)) col of
          None \<Rightarrow>
            (case fmlookup (columnsFromElements (MetaTable_Elements desTable)) col of
               None \<Rightarrow> []
             | Some desCol \<Rightarrow> [AddColumn (MetaTable_Name desTable) desCol])
        | Some currCol \<Rightarrow>
            (case fmlookup (columnsFromElements (MetaTable_Elements desTable)) col of
               None \<Rightarrow> [DropColumn (MetaTable_Name desTable) col]
             | Some desCol \<Rightarrow>
                 if ColumnDef_Name currCol \<noteq> ColumnDef_Name desCol
                    \<or> ColumnDef_Comment currCol \<noteq> ColumnDef_Comment desCol
                    \<or> ColumnDef_DataType currCol \<noteq> ColumnDef_DataType desCol
                    \<or> ColumnDef_Default currCol \<noteq> ColumnDef_Default desCol
                 then [AlterColumn (MetaTable_Name desTable) currCol desCol]
                 else []))"
proof -
  have tok: "table_order_ok (tableOrder ord name) currTable desTable"
    using assms by (auto simp: valid_order_def intro: map_order_ok_table)
  note f = filter_column_diffTable[OF tok, of col]
  have short: "length (filter (is_column_change (MetaTable_Name desTable) col)
                 (diffTable (tableOrder ord name) currTable desTable)) \<le> 1"
    unfolding f by (simp split: option.splits)
  from DiffDatabase_filter_table[OF assms is_column_change_table short]
  show ?thesis
    unfolding column_changes_def f by (simp add: columnsEqual_iff cong: option.case_cong)
qed

text \<open>
  C7. For a table whose simple name is in both snapshots and a constraint name that the
  named-constraint maps of both tables hold, the result has no change for that
  constraint of that table: neither an \<^verbatim>\<open>AddConstraint\<close> nor a
  \<^verbatim>\<open>DropConstraint\<close>, whatever the two constraints \<open>currCon\<close> and \<open>desCon\<close> are.
\<close>

theorem constraint_in_both_unchanged:
  assumes "valid_order ord current desired"
    and "tablesByName (GetTables current) = Inr currentTables"
    and "tablesByName (GetTables desired) = Inr desiredTables"
    and "fmlookup currentTables name = Some currTable"
    and "fmlookup desiredTables name = Some desTable"
    and "fmlookup (constraintsFromElements (MetaTable_Elements currTable)) con = Some currCon"
    and "fmlookup (constraintsFromElements (MetaTable_Elements desTable)) con = Some desCon"
  shows "\<exists>changes. DiffDatabase ord current desired = Inr changes
     \<and> constraint_changes (MetaTable_Name desTable) con changes = []"
proof -
  have tok: "table_order_ok (tableOrder ord name) currTable desTable"
    using assms by (auto simp: valid_order_def intro: map_order_ok_table)
  have f: "filter (is_constraint_change (MetaTable_Name desTable) con)
             (diffTable (tableOrder ord name) currTable desTable) = []"
    unfolding filter_constraint_diffTable[OF tok, of con] using assms(6,7) by simp
  have short: "length (filter (is_constraint_change (MetaTable_Name desTable) con)
                 (diffTable (tableOrder ord name) currTable desTable)) \<le> 1"
    unfolding f by simp
  from DiffDatabase_filter_table[OF assms(1-5) is_constraint_change_table short]
  show ?thesis
    unfolding constraint_changes_def f by simp
qed

section \<open>Runs on the tables users and orders\<close>

lemmas users_defs = users_before_def users_after_def users_order_def
lemmas orders_defs = orders_before_def orders_after_def orders_order_def example_unique_def

lemma users_tables:
  "tablesByName (GetTables (example_database [users_before])) = Inr (fmupd ''users'' users_before fmempty)"
  "tablesByName (GetTables (example_database [users_after])) = Inr (fmupd ''users'' users_after fmempty)"
  by (simp_all add: example_database_def GetTables_def tablesByName_def users_before_def
      users_after_def example_table_name)

lemma users_valid:
  "valid_order users_order (example_database [users_before]) (example_database [users_after])"
  unfolding valid_order_def users_tables
  by (auto simp: map_order_ok_def table_order_ok_def range_order_def fmpred_iff users_defs
      example_defs columnsFromElements_def constraintsFromElements_def split: if_splits)


lemma users_run:
  "DiffDatabase users_order (example_database [users_before]) (example_database [users_after]) =
     Inr [DropColumn (Some \<lparr>Idents = [''users'']\<rparr>) ''legacy_field'',
          AddColumn (Some \<lparr>Idents = [''users'']\<rparr>) (example_column ''email''),
          AlterColumn (Some \<lparr>Idents = [''users'']\<rparr>)
            ((example_column ''name'')\<lparr>ColumnDef_Comment := ''User name''\<rparr>)
            ((example_column ''name'')\<lparr>ColumnDef_Comment := ''Full name''\<rparr>)]"
  by (simp add: users_defs example_defs diff_defs sort_defs tableName_def)

lemma users_after_name: "MetaTable_Name users_after = Some \<lparr>Idents = [''users'']\<rparr>"
  by (simp add: users_after_def example_table_def)

lemma users_columns:
  "fmlookup (columnsFromElements (MetaTable_Elements users_before)) ''legacy_field''
     = Some (example_column ''legacy_field'')"
  "fmlookup (columnsFromElements (MetaTable_Elements users_after)) ''legacy_field'' = None"
  "fmlookup (columnsFromElements (MetaTable_Elements users_before)) ''email'' = None"
  "fmlookup (columnsFromElements (MetaTable_Elements users_after)) ''email''
     = Some (example_column ''email'')"
  "fmlookup (columnsFromElements (MetaTable_Elements users_before)) ''name''
     = Some ((example_column ''name'')\<lparr>ColumnDef_Comment := ''User name''\<rparr>)"
  "fmlookup (columnsFromElements (MetaTable_Elements users_after)) ''name''
     = Some ((example_column ''name'')\<lparr>ColumnDef_Comment := ''Full name''\<rparr>)"
  "fmlookup (columnsFromElements (MetaTable_Elements users_before)) ''id''
     = Some ((example_column ''id'')
        \<lparr>ColumnDef_Constraints :=
           [\<lparr>ColumnConstraint_Name = ''PRIMARY KEY'',
             ColumnConstraint_Spec = Some (ColumnUniqueItem True)\<rparr>],
         ColumnDef_Options := fmupd ''IsIdentity'' ''true'' fmempty\<rparr>)"
  "fmlookup (columnsFromElements (MetaTable_Elements users_after)) ''id''
     = Some (example_column ''id'')"
  by (simp_all add: users_defs example_defs columnsFromElements_def)

theorem column_changes_of_common_table_witness:
  "valid_order users_order (example_database [users_before]) (example_database [users_after])
   \<and> tablesByName (GetTables (example_database [users_before]))
       = Inr (fmupd ''users'' users_before fmempty)
   \<and> tablesByName (GetTables (example_database [users_after]))
       = Inr (fmupd ''users'' users_after fmempty)
   \<and> fmlookup (fmupd ''users'' users_before fmempty) ''users'' = Some users_before
   \<and> fmlookup (fmupd ''users'' users_after fmempty) ''users'' = Some users_after
   \<and> DiffDatabase users_order (example_database [users_before])
        (example_database [users_after]) = Inr users_changes
   \<and> column_changes (MetaTable_Name users_after) ''legacy_field'' users_changes
       = [DropColumn (MetaTable_Name users_after) ''legacy_field'']
   \<and> column_changes (MetaTable_Name users_after) ''email'' users_changes
       = [AddColumn (MetaTable_Name users_after) (example_column ''email'')]
   \<and> column_changes (MetaTable_Name users_after) ''name'' users_changes
       = [AlterColumn (MetaTable_Name users_after)
            ((example_column ''name'')\<lparr>ColumnDef_Comment := ''User name''\<rparr>)
            ((example_column ''name'')\<lparr>ColumnDef_Comment := ''Full name''\<rparr>)]
   \<and> column_changes (MetaTable_Name users_after) ''id'' users_changes = []"
proof -
  have b: "fmlookup (fmupd ''users'' users_before fmempty) ''users'' = Some users_before"
    and a: "fmlookup (fmupd ''users'' users_after fmempty) ''users'' = Some users_after"
    by simp_all
  have run: "DiffDatabase users_order (example_database [users_before])
        (example_database [users_after]) = Inr users_changes"
    unfolding users_changes_def by (rule users_run)
  note t = column_changes_of_common_table[OF users_valid users_tables b a, unfolded run]
  show ?thesis
    using users_valid users_tables run t[of "''legacy_field''"] t[of "''email''"]
      t[of "''name''"] t[of "''id''"]
    by (simp add: users_columns example_column_def)
qed

lemma orders_tables:
  "tablesByName (GetTables (example_database [orders_before])) = Inr (fmupd ''orders'' orders_before fmempty)"
  "tablesByName (GetTables (example_database [orders_after])) = Inr (fmupd ''orders'' orders_after fmempty)"
  by (simp_all add: example_database_def GetTables_def tablesByName_def orders_before_def
      orders_after_def example_table_name)

lemma orders_valid:
  "valid_order orders_order (example_database [orders_before]) (example_database [orders_after])"
  unfolding valid_order_def orders_tables
  by (auto simp: map_order_ok_def table_order_ok_def range_order_def fmpred_iff orders_defs
      example_defs columnsFromElements_def constraintsFromElements_def split: if_splits)


lemma orders_run:
  "DiffDatabase orders_order (example_database [orders_before]) (example_database [orders_after])
     = Inr [DropConstraint (Some \<lparr>Idents = [''orders'']\<rparr>) ''uq_old'' False]"
  by (simp add: orders_defs example_defs diff_defs sort_defs tableName_def)

lemma orders_constraints:
  "fmlookup (constraintsFromElements (MetaTable_Elements orders_before)) ''fk_user''
     = GetTableConstraintElement (example_foreign_key ''fk_user'')"
  "fmlookup (constraintsFromElements (MetaTable_Elements orders_after)) ''fk_user''
     = GetTableConstraintElement (example_unique ''fk_user'' [''user_id''])"
  by (simp_all add: orders_defs example_defs constraintsFromElements_def)

theorem constraint_in_both_unchanged_witness:
  "valid_order orders_order (example_database [orders_before]) (example_database [orders_after])
   \<and> tablesByName (GetTables (example_database [orders_before]))
       = Inr (fmupd ''orders'' orders_before fmempty)
   \<and> tablesByName (GetTables (example_database [orders_after]))
       = Inr (fmupd ''orders'' orders_after fmempty)
   \<and> GetTableConstraintElement (example_foreign_key ''fk_user'')
       \<noteq> GetTableConstraintElement (example_unique ''fk_user'' [''user_id''])
   \<and> DiffDatabase orders_order (example_database [orders_before])
        (example_database [orders_after])
       = Inr [DropConstraint (Some \<lparr>Idents = [''orders'']\<rparr>) ''uq_old'' False]
   \<and> constraint_changes (MetaTable_Name orders_after) ''fk_user''
        [DropConstraint (Some \<lparr>Idents = [''orders'']\<rparr>) ''uq_old'' False] = []"
proof -
  have b: "fmlookup (fmupd ''orders'' orders_before fmempty) ''orders'' = Some orders_before"
    and a: "fmlookup (fmupd ''orders'' orders_after fmempty) ''orders'' = Some orders_after"
    by simp_all
  have cb: "fmlookup (constraintsFromElements (MetaTable_Elements orders_before)) ''fk_user''
      = Some (the (GetTableConstraintElement (example_foreign_key ''fk_user'')))"
    and ca: "fmlookup (constraintsFromElements (MetaTable_Elements orders_after)) ''fk_user''
      = Some (the (GetTableConstraintElement (example_unique ''fk_user'' [''user_id''])))"
    by (simp_all add: orders_constraints example_foreign_key_def example_unique_def)
  have ne: "GetTableConstraintElement (example_foreign_key ''fk_user'')
       \<noteq> GetTableConstraintElement (example_unique ''fk_user'' [''user_id''])"
    by (simp add: example_foreign_key_def example_unique_def)
  from constraint_in_both_unchanged[OF orders_valid orders_tables b a cb ca]
  have "constraint_changes (MetaTable_Name orders_after) ''fk_user''
        [DropConstraint (Some \<lparr>Idents = [''orders'']\<rparr>) ''uq_old'' False] = []"
    by (simp add: orders_run)
  with orders_valid orders_tables orders_run ne show ?thesis by simp
qed

section \<open>Dropped tables and tables without a name\<close>

lemma orders_unnamed_valid:
  "valid_order orders_unnamed_order orders_unnamed (example_database [])"
  by (auto simp: order_defs orders_unnamed_order_def orders_unnamed_def example_defs
      GetTables_def tablesByName_def tableName_def)

text \<open>
  C4, where the code departs from it. The table \<open>orders\<close> is in the current snapshot
  only, and its one table constraint has no name. The loop that drops the table tests
  only that the element is a table constraint, so the result holds a
  \<^verbatim>\<open>DropConstraint\<close> with the empty constraint name before the \<^verbatim>\<open>DropTable\<close>;
  \<^verbatim>\<open>constraintsFromElements\<close>, which feeds the comparison of tables that stay, skips
  the constraints without a name.
\<close>

theorem unnamed_constraint_dropped:
  "DiffDatabase orders_unnamed_order orders_unnamed (example_database []) =
     Inr [DropConstraint (Some \<lparr>Idents = [''orders'']\<rparr>) '''' False,
          DropTable (Some \<lparr>Idents = [''orders'']\<rparr>)]"
  by (simp add: orders_unnamed_order_def orders_unnamed_def unnamed_check_def example_defs
      diff_defs sort_defs tableName_def)

lemma tableName_no_name: "no_name on \<Longrightarrow> tableName on = ''''"
  by (auto simp: no_name_def tableName_def split: option.splits)

lemma tablesByName_loop_dom:
  assumes "tablesByName_loop m tables = Inr m'"
  shows "fmdom' m' = fmdom' m \<union> {tableName (MetaTable_Name t) |t. Some t \<in> set tables}"
  using assms
proof (induction m tables rule: tablesByName_loop.induct)
  case (3 m t tables)
  then show ?case by auto
qed auto

lemma tablesByName_dom:
  "tablesByName tables = Inr m
     \<Longrightarrow> fmdom' m = {tableName (MetaTable_Name t) |t. Some t \<in> set tables}"
  unfolding tablesByName_def by (drule tablesByName_loop_dom) simp

lemma tablesByName_indexed:
  assumes "tablesByName tables = Inr m" "Some t \<in> set tables"
  shows "\<exists>t'. fmlookup m (tableName (MetaTable_Name t)) = Some t'"
proof -
  have "tableName (MetaTable_Name t) \<in> fmdom' m"
    using assms tablesByName_dom by blast
  then show ?thesis by (auto simp: fmlookup_dom'_iff)
qed

lemma set_SortChanges: "set (SortChanges xs) = set xs"
  using mset_SortChanges[of xs] by (metis set_mset_mset)

lemma mset_concat_member:
  "k \<in> set ks \<Longrightarrow> mset (f k) \<subseteq># mset (concat (map f ks))"
  by (induction ks) (auto simp: subset_mset.add_increasing)

lemma diffTable_in_diffTables:
  assumes "range_order dm (diffTableOrder ord)"
    and "fmlookup cm k = Some c" "fmlookup dm k = Some d"
  shows "mset (diffTable (tableOrder ord k) c d) \<subseteq># mset (diffTables ord cm dm)"
proof -
  let ?diff = "\<lambda>name desTable. case fmlookup cm name of None \<Rightarrow> []
          | Some currTable \<Rightarrow> diffTable (tableOrder ord name) currTable desTable"
  have "k \<in> set (diffTableOrder ord)"
    using assms(1,3) by (auto simp: range_order_def fmdom'I)
  then have "mset (emitted dm ?diff k) \<subseteq># mset (concat (map (emitted dm ?diff) (diffTableOrder ord)))"
    by (rule mset_concat_member)
  moreover have "emitted dm ?diff k = diffTable (tableOrder ord k) c d"
    using assms(2,3) by (simp add: emitted_def)
  ultimately have "mset (diffTable (tableOrder ord k) c d)
      \<subseteq># mset (range_map dm (diffTableOrder ord) ?diff [])"
    by (simp add: range_map_concat)
  then show ?thesis
    unfolding diffTables_parts mset_append
    by (meson mset_subset_eq_add_right subset_mset.order_trans)
qed

lemma diffTables_tables_kind:
  assumes ck: "\<And>k t. fmlookup cm k = Some t \<Longrightarrow> tableName (MetaTable_Name t) = k"
    and dk: "\<And>k t. fmlookup dm k = Some t \<Longrightarrow> tableName (MetaTable_Name t) = k"
    and ch: "ch \<in> set (diffTables ord cm dm)"
  shows "(\<forall>t. ch = AddTable t \<longrightarrow> fmlookup cm (tableName (MetaTable_Name t)) = None)
       \<and> (\<forall>n. ch = DropTable n \<longrightarrow> fmlookup dm (tableName n) = None)"
proof -
  let ?drop = "\<lambda>name currTable. if fmlookup dm name = None then dropTableChanges currTable else []"
  let ?add = "\<lambda>name desTable. if fmlookup cm name = None then [AddTable desTable] else []"
  let ?diff = "\<lambda>name desTable. case fmlookup cm name of None \<Rightarrow> []
          | Some currTable \<Rightarrow> diffTable (tableOrder ord name) currTable desTable"
  from ch have "ch \<in> set (range_map cm (dropTableOrder ord) ?drop [])
      \<or> ch \<in> set (range_map dm (addTableOrder ord) ?add [])
      \<or> ch \<in> set (range_map dm (diffTableOrder ord) ?diff [])"
    unfolding diffTables_parts by auto
  then show ?thesis
  proof (elim disjE)
    assume "ch \<in> set (range_map cm (dropTableOrder ord) ?drop [])"
    then obtain k v where kv: "fmlookup cm k = Some v" "ch \<in> set (?drop k v)"
      by (blast dest: set_range_map)
    then have none: "fmlookup dm k = None" and mem: "ch \<in> set (dropTableChanges v)"
      by (auto split: if_splits)
    show ?thesis using ck[OF kv(1)] none dropTableChanges_kind[OF mem] by auto
  next
    assume "ch \<in> set (range_map dm (addTableOrder ord) ?add [])"
    then obtain k v where kv: "fmlookup dm k = Some v" "ch \<in> set (?add k v)"
      by (blast dest: set_range_map)
    then have "fmlookup cm k = None" "ch = AddTable v"
      by (auto split: if_splits)
    then show ?thesis using dk[OF kv(1)] by auto
  next
    assume "ch \<in> set (range_map dm (diffTableOrder ord) ?diff [])"
    then obtain k v where kv: "fmlookup dm k = Some v" "ch \<in> set (?diff k v)"
      by (blast dest: set_range_map)
    then obtain c where "ch \<in> set (diffTable (tableOrder ord k) c v)"
      by (auto split: option.splits)
    then have "(\<forall>t. ch \<noteq> AddTable t) \<and> (\<forall>n. ch \<noteq> DropTable n)"
      unfolding diffTable_parts
      by (auto dest: diffColumns_kind diffConstraints_kind split: if_splits)
    then show ?thesis by simp
  qed
qed

text \<open>
  C10. \<^verbatim>\<open>tableName\<close> answers the empty string for a missing name and for a name
  without identifiers, so all such tables are indexed under the empty key: when the
  current snapshot has such a table \<open>t1\<close> and the desired snapshot has such a table
  \<open>t2\<close>, both table maps have an entry under the empty key, \<^verbatim>\<open>DiffDatabase\<close>
  returns, the changes of \<^verbatim>\<open>diffTable\<close> on these two entries are among the changes
  it returns, and it neither adds nor drops a table whose simple name is empty.
\<close>

theorem nameless_tables_are_one_table:
  assumes "valid_order ord current desired"
    and "tablesByName (GetTables current) = Inr currentTables"
    and "tablesByName (GetTables desired) = Inr desiredTables"
    and "Some t1 \<in> set (GetTables current)" and "no_name (MetaTable_Name t1)"
    and "Some t2 \<in> set (GetTables desired)" and "no_name (MetaTable_Name t2)"
  shows "tableName None = '''' \<and> tableName (Some \<lparr>Idents = []\<rparr>) = ''''
    \<and> tableName (MetaTable_Name t1) = '''' \<and> tableName (MetaTable_Name t2) = ''''
    \<and> (\<exists>currTable desTable changes.
          fmlookup currentTables '''' = Some currTable
          \<and> fmlookup desiredTables '''' = Some desTable
          \<and> DiffDatabase ord current desired = Inr changes
          \<and> mset (diffTable (tableOrder ord '''') currTable desTable) \<subseteq># mset changes
          \<and> (\<forall>ch \<in> set changes.
                (\<forall>t. ch = AddTable t \<longrightarrow> tableName (MetaTable_Name t) \<noteq> '''')
                \<and> (\<forall>n. ch = DropTable n \<longrightarrow> tableName n \<noteq> '''')))"
proof -
  have n1: "tableName (MetaTable_Name t1) = ''''" and n2: "tableName (MetaTable_Name t2) = ''''"
    using assms(5,7) by (simp_all add: tableName_no_name)
  obtain c where c: "fmlookup currentTables '''' = Some c"
    using tablesByName_indexed[OF assms(2,4)] n1 by auto
  obtain d where d: "fmlookup desiredTables '''' = Some d"
    using tablesByName_indexed[OF assms(3,6)] n2 by auto
  let ?changes = "SortChanges (diffTables ord currentTables desiredTables)"
  have run: "DiffDatabase ord current desired = Inr ?changes"
    using assms(2,3) by (simp add: DiffDatabase_def)
  have ok: "map_order_ok ord currentTables desiredTables"
    using assms(1-3) by (simp add: valid_order_def)
  have sub: "mset (diffTable (tableOrder ord '''') c d) \<subseteq># mset ?changes"
    unfolding mset_SortChanges
    using ok c d by (intro diffTable_in_diffTables) (simp_all add: map_order_ok_def)
  have kinds: "(\<forall>t. ch = AddTable t \<longrightarrow> tableName (MetaTable_Name t) \<noteq> '''')
                \<and> (\<forall>n. ch = DropTable n \<longrightarrow> tableName n \<noteq> '''')"
    if "ch \<in> set ?changes" for ch
  proof -
    from that have "ch \<in> set (diffTables ord currentTables desiredTables)"
      by (simp add: set_SortChanges)
    from diffTables_tables_kind[OF tablesByName_key[OF assms(2)] tablesByName_key[OF assms(3)] this]
    show ?thesis using c d by auto
  qed
  have n0: "tableName None = ''''" "tableName (Some \<lparr>Idents = []\<rparr>) = ''''"
    by (simp_all add: tableName_def)
  show ?thesis using n0 n1 n2 c d run sub kinds by blast
qed

lemma nameless_tables:
  "tablesByName (GetTables (example_database [nameless_before]))
     = Inr (fmupd '''' nameless_before fmempty)"
  "tablesByName (GetTables (example_database [nameless_after]))
     = Inr (fmupd '''' nameless_after fmempty)"
  by (simp_all add: example_database_def GetTables_def tablesByName_def nameless_before_def
      nameless_after_def example_table_def tableName_def)

lemma nameless_valid:
  "valid_order nameless_order (example_database [nameless_before])
     (example_database [nameless_after])"
  unfolding valid_order_def nameless_tables
  by (auto simp: map_order_ok_def table_order_ok_def range_order_def fmpred_iff
      nameless_before_def nameless_after_def nameless_order_def
      example_defs columnsFromElements_def constraintsFromElements_def split: if_splits)

lemma nameless_run:
  "DiffDatabase nameless_order (example_database [nameless_before])
     (example_database [nameless_after])
     = Inr [AddColumn (Some \<lparr>Idents = []\<rparr>) (example_column ''b'')]"
  by (simp add: nameless_before_def nameless_after_def nameless_order_def example_defs
      diff_defs sort_defs tableName_def)

theorem nameless_tables_are_one_table_witness:
  "valid_order nameless_order (example_database [nameless_before])
     (example_database [nameless_after])
   \<and> tablesByName (GetTables (example_database [nameless_before]))
       = Inr (fmupd '''' nameless_before fmempty)
   \<and> tablesByName (GetTables (example_database [nameless_after]))
       = Inr (fmupd '''' nameless_after fmempty)
   \<and> Some nameless_before \<in> set (GetTables (example_database [nameless_before]))
   \<and> no_name (MetaTable_Name nameless_before)
   \<and> Some nameless_after \<in> set (GetTables (example_database [nameless_after]))
   \<and> no_name (MetaTable_Name nameless_after)
   \<and> MetaTable_Name nameless_before \<noteq> MetaTable_Name nameless_after
   \<and> tableName (MetaTable_Name nameless_before) = ''''
   \<and> tableName (MetaTable_Name nameless_after) = ''''
   \<and> DiffDatabase nameless_order (example_database [nameless_before])
        (example_database [nameless_after])
       = Inr [AddColumn (Some \<lparr>Idents = []\<rparr>) (example_column ''b'')]
   \<and> mset (diffTable (tableOrder nameless_order '''') nameless_before nameless_after)
       \<subseteq># mset [AddColumn (Some \<lparr>Idents = []\<rparr>) (example_column ''b'')]"
proof -
  have m1: "Some nameless_before \<in> set (GetTables (example_database [nameless_before]))"
    and m2: "Some nameless_after \<in> set (GetTables (example_database [nameless_after]))"
    by (simp_all add: example_database_def GetTables_def)
  have n1: "no_name (MetaTable_Name nameless_before)"
    and n2: "no_name (MetaTable_Name nameless_after)"
    and ne: "MetaTable_Name nameless_before \<noteq> MetaTable_Name nameless_after"
    by (simp_all add: no_name_def nameless_before_def nameless_after_def example_table_def)
  from nameless_tables_are_one_table[OF nameless_valid nameless_tables m1 n1 m2 n2]
  have "tableName (MetaTable_Name nameless_before) = ''''
     \<and> tableName (MetaTable_Name nameless_after) = ''''
     \<and> mset (diffTable (tableOrder nameless_order '''') nameless_before nameless_after)
       \<subseteq># mset [AddColumn (Some \<lparr>Idents = []\<rparr>) (example_column ''b'')]"
    by (simp add: nameless_run)
  with nameless_valid nameless_tables m1 m2 n1 n2 ne nameless_run show ?thesis by simp
qed

section \<open>The conversion layer\<close>

text \<open>
  C9. Every conversion function, of a dialect table, column, constraint, foreign key or
  index, returns \<^verbatim>\<open>nil\<close> on a \<^verbatim>\<open>nil\<close> input and does not panic on it.
\<close>

theorem conversions_of_nil:
  "PGTableToMetaTable None = Inr None
   \<and> PGColumnToColumnDef None = None
   \<and> PGConstraintToTableConstraint None = None
   \<and> PGForeignKeyToTableConstraint None = None
   \<and> MYTableToMetaTable None = Inr None
   \<and> MYColumnToColumnDef None = None
   \<and> MYForeignKeyToTableConstraint None = None
   \<and> MYIndexToTableConstraint None = None
   \<and> SQLiteTableToMetaTable None = None
   \<and> SQLiteColumnToColumnDef None = None
   \<and> BQTableToMetaTable None = None
   \<and> BQColumnToColumnDef None = None"
  by (simp add: PGTableToMetaTable_def PGColumnToColumnDef_def PGConstraintToTableConstraint_def
      PGForeignKeyToTableConstraint_def MYTableToMetaTable_def MYColumnToColumnDef_def
      MYForeignKeyToTableConstraint_def MYIndexToTableConstraint_def SQLiteTableToMetaTable_def
      SQLiteColumnToColumnDef_def BQTableToMetaTable_def BQColumnToColumnDef_def)

lemma fold_columns:
  "fold (\<lambda>col elements. elements @ [ColumnDefElement (f col)]) cols elements
     = elements @ map (\<lambda>col. ColumnDefElement (f col)) cols"
  by (induction cols arbitrary: elements) auto

lemma fold_constraints:
  "fold (\<lambda>x elements. case f x of None \<Rightarrow> elements
                        | Some tc \<Rightarrow> elements @ [TableConstraintElement (Some tc)]) xs elements
     = elements @ map (\<lambda>tc. TableConstraintElement (Some tc)) (List.map_filter f xs)"
  by (induction xs arbitrary: elements) (auto simp: List.map_filter_simps split: option.splits)

lemma PGIndexes_loop_Inr:
  "None \<notin> set indexes \<Longrightarrow> PGIndexes_loop elements indexes = Inr elements"
  by (induction elements indexes rule: PGIndexes_loop.induct) auto

lemma MYIndexes_loop_Inr:
  "None \<notin> set indexes \<Longrightarrow>
     MYIndexes_loop elements indexes =
       Inr (elements @ map (\<lambda>tc. TableConstraintElement (Some tc))
              (List.map_filter MYIndexToTableConstraint (filter promoted indexes)))"
  by (induction elements indexes rule: MYIndexes_loop.induct)
    (auto simp: List.map_filter_simps promoted_def split: option.splits)

lemma PGTable_elements:
  assumes "None \<notin> set (PGTable_Indexes t)"
  shows "\<exists>meta. PGTableToMetaTable (Some t) = Inr (Some meta)
     \<and> MetaTable_Elements meta =
         map (\<lambda>col. ColumnDefElement (PGColumnToColumnDef col)) (PGTable_Columns t)
         @ map (\<lambda>tc. TableConstraintElement (Some tc))
             (List.map_filter PGConstraintToTableConstraint (PGTable_Constraints t))
         @ map (\<lambda>tc. TableConstraintElement (Some tc))
             (List.map_filter PGForeignKeyToTableConstraint (PGTable_ForeignKeys t))"
  unfolding PGTableToMetaTable_def Let_def
  by (simp add: fold_columns fold_constraints PGIndexes_loop_Inr[OF assms])

lemma MYTable_elements:
  assumes "None \<notin> set (MYTable_Indexes t)"
  shows "\<exists>meta. MYTableToMetaTable (Some t) = Inr (Some meta)
     \<and> MetaTable_Elements meta =
         map (\<lambda>col. ColumnDefElement (MYColumnToColumnDef col)) (MYTable_Columns t)
         @ map (\<lambda>tc. TableConstraintElement (Some tc))
             (List.map_filter MYForeignKeyToTableConstraint (MYTable_ForeignKeys t))
         @ map (\<lambda>tc. TableConstraintElement (Some tc))
             (List.map_filter MYIndexToTableConstraint (filter promoted (MYTable_Indexes t)))"
  unfolding MYTableToMetaTable_def Let_def
  by (simp add: fold_columns fold_constraints MYIndexes_loop_Inr[OF assms])

lemma SQLiteTable_elements:
  "\<exists>meta. SQLiteTableToMetaTable (Some t) = Some meta
     \<and> MetaTable_Elements meta =
         map (\<lambda>col. ColumnDefElement (SQLiteColumnToColumnDef col)) (SQLiteTable_Columns t)"
  unfolding SQLiteTableToMetaTable_def Let_def by (simp add: fold_columns)

lemma BQTable_elements:
  "\<exists>meta. BQTableToMetaTable (Some t) = Some meta
     \<and> MetaTable_Elements meta =
         map (\<lambda>col. ColumnDefElement (BQColumnToColumnDef col)) (BQTable_Schema t)"
  unfolding BQTableToMetaTable_def Let_def by (simp add: fold_columns)

lemma PGConstraint_kind:
  "PGConstraintToTableConstraint c = Some tc \<Longrightarrow>
     GetReferenceItem (TableConstraint_Spec tc) = None"
  by (auto simp: PGConstraintToTableConstraint_def split: option.splits if_splits)

lemma PGForeignKey_kind:
  "PGForeignKeyToTableConstraint fk = Some tc \<Longrightarrow>
     GetReferenceItem (TableConstraint_Spec tc) \<noteq> None"
  by (auto simp: PGForeignKeyToTableConstraint_def split: option.splits)

lemma MYForeignKey_kind:
  "MYForeignKeyToTableConstraint fk = Some tc \<Longrightarrow>
     GetReferenceItem (TableConstraint_Spec tc) \<noteq> None"
  by (auto simp: MYForeignKeyToTableConstraint_def split: option.splits)

lemma MYIndex_kind:
  "MYIndexToTableConstraint idx = Some tc \<Longrightarrow>
     \<exists>u. TableConstraint_Spec tc = Some (UniqueItem (Some u))"
  by (auto simp: MYIndexToTableConstraint_def Let_def split: option.splits if_splits)

text \<open>
  C8, as amended. The elements of a converted table, for a table that is not
  \<^verbatim>\<open>nil\<close> (and, for Postgres and MySQL, has no \<^verbatim>\<open>nil\<close> index, which panics):
  \<^item> Postgres: every column in the order of the source, then the table constraints of
    type \<open>p\<close>, \<open>u\<close> or \<open>c\<close> (none of them a reference; other types and \<^verbatim>\<open>nil\<close>
    entries are skipped), then the foreign keys. No index is promoted.
  \<^item> MySQL: every column in the order of the source, then the foreign keys, then the
    indexes that are unique or of type \<open>PRIMARY\<close>, each promoted to a unique table
    constraint unless it is neither named \<open>PRIMARY\<close> nor unique.
  \<^item> SQLite and BigQuery: the columns in the order of the source, and nothing else.
\<close>

theorem converted_elements_order:
  "(None \<notin> set (PGTable_Indexes pg) \<longrightarrow>
      (\<exists>meta. PGTableToMetaTable (Some pg) = Inr (Some meta)
         \<and> MetaTable_Elements meta =
             map (\<lambda>col. ColumnDefElement (PGColumnToColumnDef col)) (PGTable_Columns pg)
             @ map (\<lambda>tc. TableConstraintElement (Some tc))
                 (List.map_filter PGConstraintToTableConstraint (PGTable_Constraints pg))
             @ map (\<lambda>tc. TableConstraintElement (Some tc))
                 (List.map_filter PGForeignKeyToTableConstraint (PGTable_ForeignKeys pg))))
   \<and> (None \<notin> set (MYTable_Indexes my) \<longrightarrow>
      (\<exists>meta. MYTableToMetaTable (Some my) = Inr (Some meta)
         \<and> MetaTable_Elements meta =
             map (\<lambda>col. ColumnDefElement (MYColumnToColumnDef col)) (MYTable_Columns my)
             @ map (\<lambda>tc. TableConstraintElement (Some tc))
                 (List.map_filter MYForeignKeyToTableConstraint (MYTable_ForeignKeys my))
             @ map (\<lambda>tc. TableConstraintElement (Some tc))
                 (List.map_filter MYIndexToTableConstraint
                    (filter promoted (MYTable_Indexes my)))))
   \<and> (\<exists>meta. SQLiteTableToMetaTable (Some lite) = Some meta
         \<and> MetaTable_Elements meta =
             map (\<lambda>col. ColumnDefElement (SQLiteColumnToColumnDef col))
               (SQLiteTable_Columns lite))
   \<and> (\<exists>meta. BQTableToMetaTable (Some bq) = Some meta
         \<and> MetaTable_Elements meta =
             map (\<lambda>col. ColumnDefElement (BQColumnToColumnDef col)) (BQTable_Schema bq))
   \<and> (\<forall>c tc. PGConstraintToTableConstraint c = Some tc
         \<longrightarrow> GetReferenceItem (TableConstraint_Spec tc) = None)
   \<and> (\<forall>fk tc. PGForeignKeyToTableConstraint fk = Some tc
         \<longrightarrow> GetReferenceItem (TableConstraint_Spec tc) \<noteq> None)
   \<and> (\<forall>fk tc. MYForeignKeyToTableConstraint fk = Some tc
         \<longrightarrow> GetReferenceItem (TableConstraint_Spec tc) \<noteq> None)
   \<and> (\<forall>idx tc. MYIndexToTableConstraint idx = Some tc
         \<longrightarrow> (\<exists>u. TableConstraint_Spec tc = Some (UniqueItem (Some u))))"
  using PGTable_elements[of pg] MYTable_elements[of my] SQLiteTable_elements[of lite]
    BQTable_elements[of bq] PGConstraint_kind PGForeignKey_kind MYForeignKey_kind MYIndex_kind
  by blast

lemma pg_users_converted:
  "PGConstraintToTableConstraint
     (Some \<lparr>PGConstraint_Name = ''users_excl'', PGConstraint_Type = ''x'',
            PGConstraint_Columns = [''id''], PGConstraint_Definition = ''''\<rparr>) = None"
  "PGConstraintToTableConstraint
     (Some \<lparr>PGConstraint_Name = ''users_pkey'', PGConstraint_Type = ''p'',
            PGConstraint_Columns = [''id''], PGConstraint_Definition = ''''\<rparr>)
   = Some \<lparr>TableConstraint_Name = ''users_pkey'',
            TableConstraint_Spec = Some (UniqueItem (Some
              \<lparr>IsPrimary = True, UniqueTableConstraint_Columns = [''id''],
               IndexName = ''''\<rparr>))\<rparr>"
  by (simp_all add: PGConstraintToTableConstraint_def)

lemma my_users_promoted:
  "promoted (Some my_primary)"
  "\<not> promoted (Some \<lparr>MYIndex_Name = ''idx_name'', MYIndex_IsUnique = False,
               MYIndex_IndexType = ''BTREE'', MYIndex_Columns = [''name'']\<rparr>)"
  by (simp_all add: promoted_def my_primary_def ToUpper_def upper_char_def)

theorem converted_elements_order_witness:
  "None \<notin> set (PGTable_Indexes pg_users)
   \<and> None \<notin> set (MYTable_Indexes my_users)
   \<and> (\<exists>meta. PGTableToMetaTable (Some pg_users) = Inr (Some meta)
         \<and> MetaTable_Elements meta =
             [ColumnDefElement (PGColumnToColumnDef (Some pg_id)),
              TableConstraintElement (Some
                \<lparr>TableConstraint_Name = ''users_pkey'',
                 TableConstraint_Spec = Some (UniqueItem (Some
                   \<lparr>IsPrimary = True, UniqueTableConstraint_Columns = [''id''],
                    IndexName = ''''\<rparr>))\<rparr>),
              TableConstraintElement (PGForeignKeyToTableConstraint (Some pg_fk))])
   \<and> (\<exists>meta. MYTableToMetaTable (Some my_users) = Inr (Some meta)
         \<and> MetaTable_Elements meta =
             [ColumnDefElement (MYColumnToColumnDef (Some my_id)),
              TableConstraintElement (MYForeignKeyToTableConstraint (Some my_fk)),
              TableConstraintElement (MYIndexToTableConstraint (Some my_primary))])"
proof -
  have pg: "None \<notin> set (PGTable_Indexes pg_users)"
    and my: "None \<notin> set (MYTable_Indexes my_users)"
    by (simp_all add: pg_users_def my_users_def)
  have fk: "PGForeignKeyToTableConstraint (Some pg_fk) \<noteq> None"
    "MYForeignKeyToTableConstraint (Some my_fk) \<noteq> None"
    "MYIndexToTableConstraint (Some my_primary) \<noteq> None"
    by (simp_all add: PGForeignKeyToTableConstraint_def MYForeignKeyToTableConstraint_def
        MYIndexToTableConstraint_def my_primary_def)
  show ?thesis
    using pg my fk converted_elements_order[of pg_users my_users lite_users bq_users]
    by (auto simp: pg_users_def my_users_def List.map_filter_simps pg_users_converted
        my_users_promoted[unfolded my_primary_def] my_primary_def)
qed

text \<open>
  C8, as stated, fails: the Postgres table \<open>pg_indexed\<close> has a unique index, and the
  converted table has no element at all, so the unique index is not among the
  elements as a table constraint.
\<close>

theorem pg_index_not_promoted:
  "PGTable_Indexes pg_indexed = [Some \<lparr>PGIndex_IsPrimary = False, PGIndex_IsUnique = True\<rparr>]
   \<and> PGTableToMetaTable (Some pg_indexed) =
       Inr (Some \<lparr>MetaTable_Name = Some \<lparr>Idents = [''public'', ''events'']\<rparr>,
                  MetaTable_Type = ''BASE TABLE'', MetaTable_Elements = [],
                  MetaTable_Comment = '''', MetaTable_Options = fmempty\<rparr>)"
  by (simp add: pg_indexed_def PGTableToMetaTable_def)

section \<open>The changes of a dropped table\<close>

lemma dropTableChanges_table:
  "ch \<in> set (dropTableChanges t) \<Longrightarrow> change_table ch = MetaTable_Name t"
  using dropTableChanges_kind[of ch t] by auto

text \<open>
  What the code does for a table that is dropped (compare C4): for a table whose simple
  name is in the current snapshot only, the changes of the result that name this table
  are one \<^verbatim>\<open>DropConstraint\<close> for every element that is a table constraint, with or
  without a name, each marked as a foreign key exactly when its specification holds a
  reference item, and one \<^verbatim>\<open>DropTable\<close>.
\<close>

theorem dropped_table_changes:
  assumes "valid_order ord current desired"
    and "tablesByName (GetTables current) = Inr currentTables"
    and "tablesByName (GetTables desired) = Inr desiredTables"
    and "fmlookup currentTables name = Some currTable"
    and "fmlookup desiredTables name = None"
  shows "\<exists>changes. DiffDatabase ord current desired = Inr changes
     \<and> mset (filter (\<lambda>ch. change_table ch = MetaTable_Name currTable) changes) =
         mset (concat (map (\<lambda>elem. case GetTableConstraintElement elem of
                            None \<Rightarrow> []
                          | Some tc \<Rightarrow>
                              [DropConstraint (MetaTable_Name currTable) (TableConstraint_Name tc)
                                 (GetReferenceItem (TableConstraint_Spec tc) \<noteq> None)])
                 (MetaTable_Elements currTable))
               @ [DropTable (MetaTable_Name currTable)])"
proof -
  let ?P = "\<lambda>ch. change_table ch = MetaTable_Name currTable"
  let ?drop = "\<lambda>name currTable. if fmlookup desiredTables name = None
                 then dropTableChanges currTable else []"
  let ?add = "\<lambda>name desTable. if fmlookup currentTables name = None then [AddTable desTable] else []"
  let ?diff = "\<lambda>name desTable. case fmlookup currentTables name of None \<Rightarrow> []
          | Some currTable \<Rightarrow> diffTable (tableOrder ord name) currTable desTable"
  note ck = tablesByName_key[OF assms(2)] and dk = tablesByName_key[OF assms(3)]
  have ok: "map_order_ok ord currentTables desiredTables"
    using assms(1-3) by (simp add: valid_order_def)
  have other: "\<not> ?P ch" if "change_table ch = MetaTable_Name t" "tableName (MetaTable_Name t) \<noteq> name"
    for ch t
    using that ck[OF assms(4)] by auto
  have 1: "filter ?P (range_map currentTables (dropTableOrder ord) ?drop [])
         = filter ?P (?drop name currTable)"
  proof (rule filter_range_map_one[OF _ assms(4)])
    show "range_order currentTables (dropTableOrder ord)" using ok by (simp add: map_order_ok_def)
    fix k v assume kv: "fmlookup currentTables k = Some v" and ne: "k \<noteq> name"
    have ne': "tableName (MetaTable_Name v) \<noteq> name" using ck[OF kv] ne by simp
    have "\<not> ?P ch" if "ch \<in> set (dropTableChanges v)" for ch
      using other[OF dropTableChanges_table[OF that] ne'] .
    then show "filter ?P (?drop k v) = []"
      by (auto simp: filter_empty_conv)
  qed
  have d1: "filter ?P (?drop name currTable) = dropTableChanges currTable"
    using assms(5) by (auto simp: filter_id_conv dest: dropTableChanges_table)
  have 2: "filter ?P (range_map desiredTables (addTableOrder ord) ?add []) = []"
  proof (rule filter_range_map_none)
    fix k v assume kv: "fmlookup desiredTables k = Some v"
    then have "k \<noteq> name" using assms(5) by auto
    then have "tableName (MetaTable_Name v) \<noteq> name" using dk[OF kv] by simp
    then have "\<not> ?P (AddTable v)" using other[of "AddTable v" v] by simp
    then show "filter ?P (?add k v) = []" by simp
  qed
  have 3: "filter ?P (range_map desiredTables (diffTableOrder ord) ?diff []) = []"
  proof (rule filter_range_map_none)
    fix k v assume kv: "fmlookup desiredTables k = Some v"
    then have "k \<noteq> name" using assms(5) by auto
    then have ne': "tableName (MetaTable_Name v) \<noteq> name" using dk[OF kv] by simp
    have "\<not> ?P ch" if "ch \<in> set (diffTable o' c' v)" for ch o' c'
      using other[OF change_table_diffTable[OF that] ne'] .
    then show "filter ?P (?diff k v) = []"
      by (auto simp: filter_empty_conv split: option.splits)
  qed
  have f: "filter ?P (diffTables ord currentTables desiredTables) = dropTableChanges currTable"
    unfolding diffTables_parts filter_append 1 d1 2 3 by simp
  have "mset (filter ?P (SortChanges (diffTables ord currentTables desiredTables)))
      = mset (filter ?P (diffTables ord currentTables desiredTables))"
    by (simp add: mset_SortChanges)
  then have "mset (filter ?P (SortChanges (diffTables ord currentTables desiredTables)))
      = mset (dropTableChanges currTable)"
    unfolding f .
  then show ?thesis
    using assms(2,3) unfolding dropTableChanges_concat by (simp add: DiffDatabase_def)
qed

lemma drop_two_tables:
  "tablesByName (GetTables drop_two_current) =
     Inr (fmupd ''items'' (example_table [''shop'', ''items''] [example_foreign_key ''fk_order''])
       (fmupd ''orders'' (example_table [''shop'', ''orders''] [example_foreign_key ''fk_user''])
          fmempty))"
  "tablesByName (GetTables (example_database [])) = Inr fmempty"
  by (simp_all add: drop_two_current_def example_database_def GetTables_def tablesByName_def
      example_table_def tableName_def)

lemma drop_two_valid: "valid_order drop_two_order drop_two_current (example_database [])"
  unfolding valid_order_def drop_two_tables
  by (auto simp: map_order_ok_def range_order_def drop_two_order_def)

theorem dropped_table_changes_witness:
  "valid_order drop_two_order drop_two_current (example_database [])
   \<and> tablesByName (GetTables (example_database [])) = Inr fmempty
   \<and> fmlookup (fmempty :: (string, MetaTable) fmap) ''orders'' = None
   \<and> DiffDatabase drop_two_order drop_two_current (example_database []) =
       Inr [DropConstraint (Some \<lparr>Idents = [''shop'', ''orders'']\<rparr>) ''fk_user'' True,
            DropConstraint (Some \<lparr>Idents = [''shop'', ''items'']\<rparr>) ''fk_order'' True,
            DropTable (Some \<lparr>Idents = [''shop'', ''orders'']\<rparr>),
            DropTable (Some \<lparr>Idents = [''shop'', ''items'']\<rparr>)]
   \<and> mset (filter (\<lambda>ch. change_table ch = Some \<lparr>Idents = [''shop'', ''orders'']\<rparr>)
       [DropConstraint (Some \<lparr>Idents = [''shop'', ''orders'']\<rparr>) ''fk_user'' True,
        DropConstraint (Some \<lparr>Idents = [''shop'', ''items'']\<rparr>) ''fk_order'' True,
        DropTable (Some \<lparr>Idents = [''shop'', ''orders'']\<rparr>),
        DropTable (Some \<lparr>Idents = [''shop'', ''items'']\<rparr>)])
     = mset [DropConstraint (Some \<lparr>Idents = [''shop'', ''orders'']\<rparr>) ''fk_user'' True,
             DropTable (Some \<lparr>Idents = [''shop'', ''orders'']\<rparr>)]"
proof -
  have l: "fmlookup (fmupd ''items'' (example_table [''shop'', ''items''] [example_foreign_key ''fk_order''])
       (fmupd ''orders'' (example_table [''shop'', ''orders''] [example_foreign_key ''fk_user''])
          fmempty)) ''orders''
     = Some (example_table [''shop'', ''orders''] [example_foreign_key ''fk_user''])"
    and n: "fmlookup (fmempty :: (string, MetaTable) fmap) ''orders'' = None"
    by simp_all
  from dropped_table_changes[OF drop_two_valid drop_two_tables l n]
  show ?thesis
    using drop_two_valid drop_two_tables(2)
    by (simp add: drop_two_run example_table_def example_foreign_key_def)
qed

end
